theory Spec2Isabelle
  imports Main "HOL-Library.Word"
begin

unbundle bit_operations_syntax

section \<open>Values\<close>

text \<open>
  Python strings are modelled by their UTF-8 byte sequence (a \<open>string\<close> is a list of
  8-bit characters). Concatenation and \<open>startswith\<close> commute with UTF-8 encoding, so
  \<open>name.encode()\<close> is the map from characters to byte values.

  JSON documents, as \<open>json.loads\<close> and the remote client hand them to the program.
  An object keeps its members in insertion order. Numbers are integers; JSON reals
  (Python floats) are not modelled.
\<close>

datatype json =
    JNull
  | JBool bool
  | JInt int
  | JStr string
  | JList "json list"
  | JObj "(string \<times> json) list"

text \<open>
  A loop item is any Python object. \<open>format_name\<close> observes two things of it only:
  its truth value and its \<open>str()\<close>. The scalars are modelled as they are; any other
  object (a float, a list, a dict) is \<open>OtherItem t s\<close>, carrying its truth value \<open>t\<close>
  and its string form \<open>s\<close>.
\<close>

datatype loop_item =
    NoItem
  | StrItem string
  | IntItem int
  | BoolItem bool
  | OtherItem bool string

text \<open>Python's truth value of an object (\<open>if loop_item:\<close>).\<close>

fun truthy :: "loop_item \<Rightarrow> bool" where
  "truthy NoItem = False"
| "truthy (StrItem s) = (s \<noteq> [])"
| "truthy (IntItem n) = (n \<noteq> 0)"
| "truthy (BoolItem b) = b"
| "truthy (OtherItem t s) = t"

text \<open>Decimal digits of a natural number, most significant first.\<close>

fun digits :: "nat \<Rightarrow> string" where
  "digits n = (if n < 10 then [''0123456789'' ! n]
               else digits (n div 10) @ [''0123456789'' ! (n mod 10)])"

declare digits.simps [simp del]

text \<open>Python's \<open>str()\<close>.\<close>

fun str :: "loop_item \<Rightarrow> string" where
  "str NoItem = ''None''"
| "str (StrItem s) = s"
| "str (IntItem n) = (if n < 0 then ''-'' @ digits (nat (- n)) else digits (nat n))"
| "str (BoolItem b) = (if b then ''True'' else ''False'')"
| "str (OtherItem t s) = s"

section \<open>Identity derivation (stencil.py)\<close>

text \<open>
  \<open>ResourceStencil.format_name\<close>: \<open>kind\<close> is the attribute \<open>self.kind\<close>.
\<close>

definition format_name :: "string \<Rightarrow> string \<Rightarrow> loop_item \<Rightarrow> string" where
  "format_name kind name loop_item =
     (let name = kind @ ''_'' @ name
      in if truthy loop_item then name @ ''_'' @ str loop_item else name)"

text \<open>
  \<open>hashlib.md5\<close>, after RFC 1321, on bytes: the sine table, the shift amounts, the
  64 steps of a block, the padding, and the digest as 16 bytes.
\<close>

definition md5_K :: "32 word list" where
  "md5_K =
    [0xd76aa478, 0xe8c7b756, 0x242070db, 0xc1bdceee, 0xf57c0faf, 0x4787c62a, 0xa8304613, 0xfd469501,
     0x698098d8, 0x8b44f7af, 0xffff5bb1, 0x895cd7be, 0x6b901122, 0xfd987193, 0xa679438e, 0x49b40821,
     0xf61e2562, 0xc040b340, 0x265e5a51, 0xe9b6c7aa, 0xd62f105d, 0x02441453, 0xd8a1e681, 0xe7d3fbc8,
     0x21e1cde6, 0xc33707d6, 0xf4d50d87, 0x455a14ed, 0xa9e3e905, 0xfcefa3f8, 0x676f02d9, 0x8d2a4c8a,
     0xfffa3942, 0x8771f681, 0x6d9d6122, 0xfde5380c, 0xa4beea44, 0x4bdecfa9, 0xf6bb4b60, 0xbebfbc70,
     0x289b7ec6, 0xeaa127fa, 0xd4ef3085, 0x04881d05, 0xd9d4d039, 0xe6db99e5, 0x1fa27cf8, 0xc4ac5665,
     0xf4292244, 0x432aff97, 0xab9423a7, 0xfc93a039, 0x655b59c3, 0x8f0ccc92, 0xffeff47d, 0x85845dd1,
     0x6fa87e4f, 0xfe2ce6e0, 0xa3014314, 0x4e0811a1, 0xf7537e82, 0xbd3af235, 0x2ad7d2bb, 0xeb86d391]"

definition md5_s :: "nat list" where
  "md5_s =
    [7, 12, 17, 22, 7, 12, 17, 22, 7, 12, 17, 22, 7, 12, 17, 22,
     5, 9, 14, 20, 5, 9, 14, 20, 5, 9, 14, 20, 5, 9, 14, 20,
     4, 11, 16, 23, 4, 11, 16, 23, 4, 11, 16, 23, 4, 11, 16, 23,
     6, 10, 15, 21, 6, 10, 15, 21, 6, 10, 15, 21, 6, 10, 15, 21]"

definition rotl32 :: "nat \<Rightarrow> 32 word \<Rightarrow> 32 word" where
  "rotl32 n w = push_bit n w OR drop_bit (32 - n) w"

type_synonym md5_state = "32 word \<times> 32 word \<times> 32 word \<times> 32 word"

definition md5_step :: "32 word list \<Rightarrow> nat \<Rightarrow> md5_state \<Rightarrow> md5_state" where
  "md5_step m i st =
     (case st of (a, b, c, d) \<Rightarrow>
        let (f, g) =
              (if i < 16 then ((b AND c) OR (NOT b AND d), i)
               else if i < 32 then ((d AND b) OR (NOT d AND c), (5 * i + 1) mod 16)
               else if i < 48 then (b XOR c XOR d, (3 * i + 5) mod 16)
               else (c XOR (b OR NOT d), (7 * i) mod 16));
            f = f + a + md5_K ! i + m ! g
        in (d, b + rotl32 (md5_s ! i) f, b, c))"

definition md5_block :: "md5_state \<Rightarrow> 32 word list \<Rightarrow> md5_state" where
  "md5_block st m =
     (case st of (a0, b0, c0, d0) \<Rightarrow>
        case fold (md5_step m) [0..<64] st of (a, b, c, d) \<Rightarrow>
          (a0 + a, b0 + b, c0 + c, d0 + d))"

text \<open>Little-endian words from bytes and back.\<close>

definition le_word :: "8 word list \<Rightarrow> 32 word" where
  "le_word bs = foldr (\<lambda>b w. ucast b OR push_bit 8 w) bs 0"

definition le_bytes :: "nat \<Rightarrow> 'a::len word \<Rightarrow> 8 word list" where
  "le_bytes n w = map (\<lambda>i. ucast (drop_bit (8 * i) w)) [0..<n]"

definition chunks :: "nat \<Rightarrow> 'a list \<Rightarrow> 'a list list" where
  "chunks n xs = map (\<lambda>i. take n (drop (i * n) xs)) [0..<length xs div n]"

definition md5_pad :: "8 word list \<Rightarrow> 8 word list" where
  "md5_pad msg =
     msg @ [0x80] @ replicate ((119 - length msg mod 64) mod 64) 0
         @ le_bytes 8 (word_of_nat (8 * length msg) :: 64 word)"

definition md5 :: "8 word list \<Rightarrow> 8 word list" where
  "md5 msg =
     (case fold (\<lambda>blk st. md5_block st (map le_word (chunks 4 blk)))
                (chunks 64 (md5_pad msg))
                (0x67452301, 0xefcdab89, 0x98badcfe, 0x10325476)
      of (a, b, c, d) \<Rightarrow> le_bytes 4 a @ le_bytes 4 b @ le_bytes 4 c @ le_bytes 4 d)"

text \<open>\<open>hexdigest()\<close>: two lower-case hexadecimal digits per byte.\<close>

definition hex_digits :: string where
  "hex_digits = ''0123456789abcdef''"

definition hexdigest :: "8 word list \<Rightarrow> string" where
  "hexdigest bs =
     concat (map (\<lambda>b. [hex_digits ! unat (drop_bit 4 b),
                        hex_digits ! unat (b AND 15)]) bs)"

text \<open>\<open>str.encode()\<close> on the UTF-8 representation.\<close>

definition encode :: "string \<Rightarrow> 8 word list" where
  "encode s = map of_char s"

text \<open>\<open>ResourceStencil.format_uid\<close>.\<close>

definition format_uid :: "string \<Rightarrow> string" where
  "format_uid name = ''gdbt_'' @ hexdigest (md5 (encode name))"

section \<open>Errors, dictionaries and the object store\<close>

text \<open>
  The exception of the remote client library, \<open>grafana_api.GrafanaException\<close>, with
  the two attributes the program reads. \<open>client_error\<close> says whether the exception is
  an instance of the subclass \<open>GrafanaClientError\<close>.
\<close>

record grafana_exception =
  client_error :: bool
  status_code :: int
  message :: string

text \<open>
  The exceptions the program raises or lets through. Modelled from the spec: the
  module \<open>gdbt.errors\<close> is not part of the sources read here; its classes
  \<open>ProviderNotFound\<close>, \<open>DataError\<close> and \<open>GrafanaError\<close> are taken to be the three
  unrelated error classes of the spec's taxonomy (none of them a \<open>KeyError\<close>,
  a \<open>TypeError\<close> or a remote exception). \<open>GrafanaException\<close> is the exception of
  the remote client, as long as no handler has translated it. \<open>CollaboratorError\<close>
  stands for whatever another external collaborator raises (the iterator, the
  template renderer, an evaluation, \<open>json.loads\<close>). \<open>InvalidReference\<close> is not a
  Python exception: it marks an address outside the store, which no Python program
  can hold.
\<close>

datatype error =
    ProviderNotFound string
  | DataError string
  | GrafanaError string
  | GrafanaException grafana_exception
  | KeyError string
  | TypeError
  | AttributeError
  | CollaboratorError string
  | InvalidReference

text \<open>
  A Python \<open>dict\<close>, as the list of its items in insertion order.
  \<open>d[k] = v\<close> keeps the position of a key already present and appends a new one.
\<close>

type_synonym 'v dict = "(string \<times> 'v) list"

fun dict_set :: "string \<Rightarrow> 'v \<Rightarrow> 'v dict \<Rightarrow> 'v dict" where
  "dict_set k v [] = [(k, v)]"
| "dict_set k v ((k', v') # d) =
     (if k' = k then (k, v) # d else (k', v') # dict_set k v d)"

text \<open>\<open>d.update(items)\<close>, and the display \<open>{**a, **b}\<close>.\<close>

definition dict_update :: "'v dict \<Rightarrow> 'v dict \<Rightarrow> 'v dict" where
  "dict_update items d = fold (\<lambda>(k, v). dict_set k v) items d"

definition dict_merge :: "'v dict \<Rightarrow> 'v dict \<Rightarrow> 'v dict" where
  "dict_merge a b = dict_update b (dict_update a [])"

text \<open>\<open>d.pop(k, None)\<close>, for its effect on \<open>d\<close>.\<close>

definition dict_pop :: "string \<Rightarrow> 'v dict \<Rightarrow> 'v dict" where
  "dict_pop k d = filter (\<lambda>(k', v). k' \<noteq> k) d"

text \<open>
  Subscription \<open>x[k]\<close> with a string key: a missing key of a dict is a \<open>KeyError\<close>,
  anything that is not a dict raises \<open>TypeError\<close>.
\<close>

fun getitem :: "json \<Rightarrow> string \<Rightarrow> error + json" where
  "getitem (JObj d) k = (case map_of d k of None \<Rightarrow> Inl (KeyError k) | Some v \<Rightarrow> Inr v)"
| "getitem _ k = Inl TypeError"

text \<open>
  The models of resources are dict objects that the program shares and mutates in
  place, so they live in a store: an address is an index into the list of objects
  allocated so far.
\<close>

type_synonym addr = nat
type_synonym heap = "json list"

definition alloc :: "json \<Rightarrow> heap \<Rightarrow> addr \<times> heap" where
  "alloc v h = (length h, h @ [v])"

definition deref :: "heap \<Rightarrow> addr \<Rightarrow> json option" where
  "deref h a = (if a < length h then Some (h ! a) else None)"

text \<open>\<open>x[k]\<close> on the object at an address.\<close>

definition heap_getitem :: "heap \<Rightarrow> addr \<Rightarrow> string \<Rightarrow> error + json" where
  "heap_getitem h a k =
     (case deref h a of None \<Rightarrow> Inl InvalidReference | Some v \<Rightarrow> getitem v k)"

text \<open>
  \<open>x.pop(k, None)\<close> on the object at an address. A list's \<open>pop\<close> takes one argument
  (\<open>TypeError\<close>); the other JSON values have no \<open>pop\<close> (\<open>AttributeError\<close>).
\<close>

definition heap_pop :: "string \<Rightarrow> addr \<Rightarrow> heap \<Rightarrow> (error + unit) \<times> heap" where
  "heap_pop k a h =
     (case deref h a of
        None \<Rightarrow> (Inl InvalidReference, h)
      | Some (JObj d) \<Rightarrow> (Inr (), h[a := JObj (dict_pop k d)])
      | Some (JList l) \<Rightarrow> (Inl TypeError, h)
      | Some _ \<Rightarrow> (Inl AttributeError, h))"

text \<open>\<open>x.update(items)\<close> on the object at an address; only a dict has it.\<close>

definition heap_update :: "json dict \<Rightarrow> addr \<Rightarrow> heap \<Rightarrow> (error + unit) \<times> heap" where
  "heap_update items a h =
     (case deref h a of
        None \<Rightarrow> (Inl InvalidReference, h)
      | Some (JObj d) \<Rightarrow> (Inr (), h[a := JObj (dict_update items d)])
      | Some _ \<Rightarrow> (Inl AttributeError, h))"

section \<open>Resources (resource.py): the classes\<close>

text \<open>
  The classes \<open>Folder\<close> and \<open>Dashboard\<close> of \<open>gdbt.resource.resource\<close>. The attribute
  \<open>model\<close> is a reference to a dict object; \<open>folder\<close> exists on dashboards only.
  The attributes \<open>uid\<close> and \<open>folder\<close> are annotated \<open>str\<close>, but nothing checks it, and
  \<open>Folder.get_by_id\<close> stores whatever the remote service sent: they are JSON values,
  \<open>JStr u\<close> for a string.
\<close>

datatype resource =
    Folder (res_grafana: string) (res_uid: json) (res_model: addr)
  | Dashboard (res_grafana: string) (res_uid: json) (res_model: addr) (res_folder: json)

section \<open>Stencils (stencil.py)\<close>

text \<open>
  An \<open>Evaluation\<close> is an object with a method \<open>value(providers)\<close>; it is modelled by
  that method. \<open>'p\<close> is the provider registry, \<open>'v\<close> the values of variables.
\<close>

type_synonym ('p, 'v) evaluation = "'p \<Rightarrow> error + 'v"

text \<open>The two concrete stencil classes; a dashboard stencil has the attribute \<open>folder\<close>.\<close>

datatype stencil_class = FolderStencil | DashboardStencil string

record ('p, 'v) resource_stencil =
  s_class :: stencil_class
  s_kind :: string
  s_evaluations :: "('p, 'v) evaluation dict option"
  s_lookups :: "'v dict option"
  s_provider :: string
  s_loop :: "string option"
  s_model :: string

text \<open>
  The collaborators outside the sources read here, taken as parameters:
  \<open>Iterator(loop).iterable(providers, evaluations, lookups)\<close>;
  \<open>Template(model).render(providers, evaluations, lookups, item)\<close>; and \<open>json.loads\<close>.
  The iterable is consumed one item at a time by the loop of \<open>resolve\<close>. Its run is
  the list of the items it yields and how it stops: \<open>None\<close> when it is exhausted,
  \<open>Some e\<close> when it raises \<open>e\<close> instead of yielding the next item (a failure of the
  call \<open>iterable(...)\<close> itself is a run with no item). Only iterables that stop are
  described this way; on one that yields for ever \<open>resolve\<close> does not return.
\<close>

record ('p, 'v) collaborators =
  iterable :: "string \<Rightarrow> 'p \<Rightarrow> 'v dict \<Rightarrow> 'v dict \<Rightarrow> loop_item list \<times> error option"
  render :: "string \<Rightarrow> 'p \<Rightarrow> 'v dict \<Rightarrow> 'v dict \<Rightarrow> loop_item \<Rightarrow> error + string"
  loads :: "string \<Rightarrow> error + json"

text \<open>\<open>x or {}\<close>, and \<open>if not x: x = {}\<close>, on an optional dict.\<close>

definition or_empty :: "'a dict option \<Rightarrow> 'a dict" where
  "or_empty x = (case x of None \<Rightarrow> [] | Some d \<Rightarrow> if d = [] then [] else d)"

text \<open>
  The comprehension \<open>{name: value.value(providers) for name, value in d.items()}\<close>:
  the evaluations are forced in the order of the dict, the first failure is raised.
\<close>

fun force_all :: "'p \<Rightarrow> ('p, 'v) evaluation dict \<Rightarrow> error + 'v dict" where
  "force_all providers [] = Inr []"
| "force_all providers ((name, val) # rest) =
     (case val providers of
        Inl e \<Rightarrow> Inl e
      | Inr v \<Rightarrow>
          (case force_all providers rest of
             Inl e \<Rightarrow> Inl e
           | Inr vs \<Rightarrow> Inr ((name, v) # vs)))"

text \<open>\<open>ResourceStencil.resolve_vars\<close>.\<close>

definition resolve_vars ::
  "('p, 'v) resource_stencil \<Rightarrow> 'p \<Rightarrow> ('p, 'v) evaluation dict option \<Rightarrow> 'v dict option
    \<Rightarrow> error + ('v dict \<times> 'v dict)" where
  "resolve_vars self providers evaluations lookups =
     (let evaluations = or_empty evaluations;
          lookups = or_empty lookups
      in case force_all providers (dict_merge evaluations (or_empty (s_evaluations self))) of
           Inl e \<Rightarrow> Inl e
         | Inr evaluations_resolved \<Rightarrow>
             Inr (evaluations_resolved, dict_merge lookups (or_empty (s_lookups self))))"

text \<open>
  \<open>ResourceStencil.resolve_loops\<close>: the run of the generator, that is the items it
  yields and how it stops. \<open>not self.loop\<close> holds for \<open>None\<close> and for the empty string.
\<close>

definition resolve_loops ::
  "('p, 'v) collaborators \<Rightarrow> ('p, 'v) resource_stencil \<Rightarrow> 'p \<Rightarrow> 'v dict \<Rightarrow> 'v dict
    \<Rightarrow> loop_item list \<times> error option" where
  "resolve_loops env self providers evaluations lookups =
     (case s_loop self of
        None \<Rightarrow> ([NoItem], None)
      | Some l \<Rightarrow>
          if l = [] then ([NoItem], None)
          else iterable env l providers evaluations lookups)"

text \<open>\<open>str.startswith\<close>.\<close>

definition startswith :: "string \<Rightarrow> string \<Rightarrow> bool" where
  "startswith s p = (take (length p) s = p)"

text \<open>
  \<open>make_resource\<close> of the two stencil classes. \<open>json.loads\<close> returns a new object,
  which the resource then refers to.
\<close>

definition Folder_make_resource ::
  "('p, 'v) collaborators \<Rightarrow> string \<Rightarrow> string \<Rightarrow> string \<Rightarrow> 'p \<Rightarrow> heap
    \<Rightarrow> (error + resource) \<times> heap" where
  "Folder_make_resource env grafana uid model providers h =
     (case loads env model of
        Inl e \<Rightarrow> (Inl e, h)
      | Inr v \<Rightarrow>
          (case alloc v h of (model_dict, h1) \<Rightarrow>
             (Inr (Folder grafana (JStr uid) model_dict), h1)))"

definition Dashboard_make_resource ::
  "('p, 'v) collaborators \<Rightarrow> string \<Rightarrow> string \<Rightarrow> string \<Rightarrow> string \<Rightarrow> 'p \<Rightarrow> heap
    \<Rightarrow> (error + resource) \<times> heap" where
  "Dashboard_make_resource env folder grafana uid model providers h =
     (case loads env model of
        Inl e \<Rightarrow> (Inl e, h)
      | Inr v \<Rightarrow>
          (case alloc v h of (model_dict, h1) \<Rightarrow>
             (case heap_pop ''id'' model_dict h1 of
                (Inl e, h2) \<Rightarrow> (Inl e, h2)
              | (Inr _, h2) \<Rightarrow>
                  (let folder_name =
                         (if startswith folder ''folder_'' then folder
                          else ''folder_'' @ folder);
                       folder_uid = format_uid folder_name
                   in (Inr (Dashboard grafana (JStr uid) model_dict (JStr folder_uid)), h2)))))"

definition make_resource ::
  "('p, 'v) collaborators \<Rightarrow> ('p, 'v) resource_stencil \<Rightarrow> string \<Rightarrow> string \<Rightarrow> string \<Rightarrow> 'p
    \<Rightarrow> heap \<Rightarrow> (error + resource) \<times> heap" where
  "make_resource env self grafana uid model providers h =
     (case s_class self of
        FolderStencil \<Rightarrow> Folder_make_resource env grafana uid model providers h
      | DashboardStencil folder \<Rightarrow>
          Dashboard_make_resource env folder grafana uid model providers h)"

text \<open>
  The body of the loop of \<open>ResourceStencil.resolve\<close>, run for the items that the
  generator yields, \<open>resources\<close> being the dict built so far.
\<close>

fun resolve_loop ::
  "('p, 'v) collaborators \<Rightarrow> ('p, 'v) resource_stencil \<Rightarrow> string \<Rightarrow> 'p \<Rightarrow> 'v dict \<Rightarrow> 'v dict
    \<Rightarrow> loop_item list \<Rightarrow> resource dict \<Rightarrow> heap \<Rightarrow> (error + resource dict) \<times> heap" where
  "resolve_loop env self name providers evaluations lookups [] resources h =
     (Inr resources, h)"
| "resolve_loop env self name providers evaluations lookups (item # items) resources h =
     (let resource_name = format_name (s_kind self) name item;
          uid = format_uid resource_name
      in case render env (s_model self) providers evaluations lookups item of
           Inl e \<Rightarrow> (Inl e, h)
         | Inr model \<Rightarrow>
             (case make_resource env self (s_provider self) uid model providers h of
                (Inl e, h1) \<Rightarrow> (Inl e, h1)
              | (Inr resource, h1) \<Rightarrow>
                  resolve_loop env self name providers evaluations lookups items
                    (dict_update [(resource_name, resource)] resources) h1))"

text \<open>
  \<open>ResourceStencil.resolve\<close>. The generator is asked for the next item after the
  body of the loop has run for the items before it, so a failure of the iterator
  comes after the work on the items it has yielded.
\<close>

definition resolve ::
  "('p, 'v) collaborators \<Rightarrow> ('p, 'v) resource_stencil \<Rightarrow> string \<Rightarrow> 'p
    \<Rightarrow> ('p, 'v) evaluation dict option \<Rightarrow> 'v dict option \<Rightarrow> heap
    \<Rightarrow> (error + resource dict) \<times> heap" where
  "resolve env self name providers evaluations lookups h =
     (case resolve_vars self providers evaluations lookups of
        Inl e \<Rightarrow> (Inl e, h)
      | Inr (evaluations, lookups) \<Rightarrow>
          (case resolve_loops env self providers evaluations lookups of
             (items, stop) \<Rightarrow>
               (case resolve_loop env self name providers evaluations lookups items [] h of
                  (Inl e, h1) \<Rightarrow> (Inl e, h1)
                | (Inr resources, h1) \<Rightarrow>
                    (case stop of
                       Some e \<Rightarrow> (Inl e, h1)
                     | None \<Rightarrow> (Inr resources, h1)))))"

section \<open>The remote service and the state of a run\<close>

text \<open>
  The requests that the program sends through the client of a provider
  (\<open>provider.client.folder.get_folder(uid)\<close> and so on), with their arguments;
  \<open>update_folder\<close> carries the keyword argument \<open>overwrite\<close>.
\<close>

datatype request =
    get_folder json
  | get_folder_by_id json
  | create_folder json json
  | update_folder json json bool
  | delete_folder json
  | get_dashboard json
  | update_dashboard json
  | delete_dashboard json

text \<open>
  A provider is a parameter: it answers a request in a state \<open>'s\<close> of the remote
  service with the parsed JSON of the response, or raises a \<open>GrafanaException\<close>, and
  leaves the service in a new state. The provider registry is a dict from the name
  of a service to its provider.
\<close>

type_synonym 's provider = "request \<Rightarrow> 's \<Rightarrow> (grafana_exception + json) \<times> 's"

type_synonym 's providers = "string \<Rightarrow> 's provider option"

text \<open>
  The state of a run: the state of the remote service, the store of the dict
  objects, and the requests sent so far with their outcomes. The program never
  reads \<open>calls\<close>; it is kept so that properties can speak of the requests made.
\<close>

record 's world =
  remote :: 's
  store :: heap
  calls :: "(request \<times> (grafana_exception + json)) list"

text \<open>
  A piece of program returns a value or raises, and changes the state.
  \<open>seq m f\<close> runs \<open>m\<close>, then \<open>f\<close> on its value; an exception of \<open>m\<close> ends it.
  \<open>try_except m handler\<close> is \<open>try: m\<close> followed by the \<open>except\<close> clauses \<open>handler\<close>.
\<close>

type_synonym ('a, 's) prog = "'s world \<Rightarrow> (error + 'a) \<times> 's world"

definition ret :: "'a \<Rightarrow> ('a, 's) prog" where
  "ret x w = (Inr x, w)"

definition throw :: "error \<Rightarrow> ('a, 's) prog" where
  "throw e w = (Inl e, w)"

definition seq :: "('a, 's) prog \<Rightarrow> ('a \<Rightarrow> ('b, 's) prog) \<Rightarrow> ('b, 's) prog" where
  "seq m f w = (case m w of (Inl e, w1) \<Rightarrow> (Inl e, w1) | (Inr x, w1) \<Rightarrow> f x w1)"

definition try_except :: "('a, 's) prog \<Rightarrow> (error \<Rightarrow> ('a, 's) prog) \<Rightarrow> ('a, 's) prog" where
  "try_except m handler w =
     (case m w of (Inl e, w1) \<Rightarrow> handler e w1 | (Inr x, w1) \<Rightarrow> (Inr x, w1))"

text \<open>A step without effect, such as the subscription of a value.\<close>

definition lift :: "error + 'a \<Rightarrow> ('a, 's) prog" where
  "lift r w = (r, w)"

text \<open>The operations on the objects of the store.\<close>

definition new :: "json \<Rightarrow> (addr, 's) prog" where
  "new v w = (case alloc v (store w) of (a, h) \<Rightarrow> (Inr a, w\<lparr>store := h\<rparr>))"

definition load :: "addr \<Rightarrow> (json, 's) prog" where
  "load a w =
     (case deref (store w) a of None \<Rightarrow> (Inl InvalidReference, w) | Some v \<Rightarrow> (Inr v, w))"

definition obj_getitem :: "addr \<Rightarrow> string \<Rightarrow> (json, 's) prog" where
  "obj_getitem a k w = (heap_getitem (store w) a k, w)"

definition obj_pop :: "string \<Rightarrow> addr \<Rightarrow> (unit, 's) prog" where
  "obj_pop k a w = (case heap_pop k a (store w) of (r, h) \<Rightarrow> (r, w\<lparr>store := h\<rparr>))"

definition obj_update :: "json dict \<Rightarrow> addr \<Rightarrow> (unit, 's) prog" where
  "obj_update items a w = (case heap_update items a (store w) of (r, h) \<Rightarrow> (r, w\<lparr>store := h\<rparr>))"

text \<open>
  The attribute \<open>x.update\<close>, which Python looks up before it evaluates the
  arguments of the call \<open>x.update(...)\<close>: only a dict has it.
\<close>

definition obj_update_method :: "addr \<Rightarrow> (unit, 's) prog" where
  "obj_update_method a w =
     (case deref (store w) a of
        None \<Rightarrow> (Inl InvalidReference, w)
      | Some (JObj d) \<Rightarrow> (Inr (), w)
      | Some _ \<Rightarrow> (Inl AttributeError, w))"

text \<open>
  A request to a provider: the answer, or the exception of the client, and the new
  state of the service.
\<close>

definition invoke :: "'s provider \<Rightarrow> request \<Rightarrow> (json, 's) prog" where
  "invoke provider rq w =
     (case provider rq (remote w) of
        (out, s) \<Rightarrow>
          ((case out of Inl exc \<Rightarrow> Inl (GrafanaException exc) | Inr v \<Rightarrow> Inr v),
           w\<lparr>remote := s, calls := calls w @ [(rq, out)]\<rparr>))"

section \<open>Resources (resource.py): the operations\<close>

text \<open>\<open>Resource.client\<close>.\<close>

definition client :: "string \<Rightarrow> 's providers \<Rightarrow> ('s provider, 's) prog" where
  "client grafana providers =
     (case providers grafana of
        None \<Rightarrow> throw (ProviderNotFound grafana)
      | Some provider \<Rightarrow> ret provider)"

text \<open>
  The clause \<open>except GrafanaException as exc: raise GrafanaError(exc.message)\<close>;
  any other exception passes.
\<close>

definition raise_GrafanaError :: "error \<Rightarrow> ('a, 's) prog" where
  "raise_GrafanaError e =
     (case e of
        GrafanaException exc \<Rightarrow> throw (GrafanaError (message exc))
      | _ \<Rightarrow> throw e)"

text \<open>
  The clauses of \<open>exists\<close> and \<open>delete\<close>: a \<open>GrafanaClientError\<close> with status 404 ends
  the method with the value \<open>x\<close>, another \<open>GrafanaException\<close> becomes a \<open>GrafanaError\<close>.
\<close>

definition unless_not_found :: "'a \<Rightarrow> error \<Rightarrow> ('a, 's) prog" where
  "unless_not_found x e =
     (case e of
        GrafanaException exc \<Rightarrow>
          if client_error exc \<and> status_code exc = 404 then ret x
          else throw (GrafanaError (message exc))
      | _ \<Rightarrow> throw e)"

subsection \<open>Folder\<close>

definition Folder_get :: "string \<Rightarrow> json \<Rightarrow> 's providers \<Rightarrow> (resource, 's) prog" where
  "Folder_get grafana uid providers =
     seq (try_except
            (seq (client grafana providers) (\<lambda>provider.
             seq (invoke provider (get_folder uid)) (\<lambda>folder.
             lift (getitem folder ''title''))))
            raise_GrafanaError) (\<lambda>title.
     seq (new (JObj [(''title'', title)])) (\<lambda>model.
     ret (Folder grafana uid model)))"

definition Folder_create ::
  "string \<Rightarrow> json \<Rightarrow> addr \<Rightarrow> 's providers \<Rightarrow> (resource, 's) prog" where
  "Folder_create grafana uid model providers =
     seq (try_except
            (seq (obj_getitem model ''title'') (\<lambda>title.
             seq (client grafana providers) (\<lambda>provider.
             seq (invoke provider (create_folder title uid)) (\<lambda>_.
             ret ()))))
            (\<lambda>e. case e of
                    KeyError k \<Rightarrow> throw (DataError ''Folder model missing 'title' key'')
                  | GrafanaException exc \<Rightarrow>
                      if status_code exc \<noteq> 412 then throw (GrafanaError (message exc))
                      else ret ()
                  | _ \<Rightarrow> throw e)) (\<lambda>_.
     Folder_get grafana uid providers)"

text \<open>
  In \<open>exists\<close> the \<open>return True\<close> follows the \<open>try\<close> statement; it cannot raise, so it is
  placed at the end of the body of the \<open>try\<close>. The same holds for the end of \<open>delete\<close>.
\<close>

definition Folder_exists :: "string \<Rightarrow> json \<Rightarrow> 's providers \<Rightarrow> (bool, 's) prog" where
  "Folder_exists grafana uid providers =
     try_except
       (seq (client grafana providers) (\<lambda>provider.
        seq (invoke provider (get_folder uid)) (\<lambda>_.
        ret True)))
       (unless_not_found False)"

definition Folder_get_by_id :: "string \<Rightarrow> json \<Rightarrow> 's providers \<Rightarrow> (resource, 's) prog" where
  "Folder_get_by_id grafana id' providers =
     seq (try_except
            (seq (client grafana providers) (\<lambda>provider.
             invoke provider (get_folder_by_id id')))
            raise_GrafanaError) (\<lambda>data.
     seq (lift (getitem data ''title'')) (\<lambda>title.
     seq (new (JObj [(''title'', title)])) (\<lambda>model.
     seq (lift (getitem data ''uid'')) (\<lambda>uid.
     ret (Folder grafana uid model)))))"

definition Folder_id :: "resource \<Rightarrow> 's providers \<Rightarrow> (json, 's) prog" where
  "Folder_id self providers =
     try_except
       (seq (client (res_grafana self) providers) (\<lambda>provider.
        seq (invoke provider (get_folder (res_uid self))) (\<lambda>folder.
        lift (getitem folder ''id''))))
       raise_GrafanaError"

definition Folder_update :: "resource \<Rightarrow> addr \<Rightarrow> 's providers \<Rightarrow> (unit, 's) prog" where
  "Folder_update self model providers =
     try_except
       (seq (obj_getitem model ''title'') (\<lambda>title.
        seq (client (res_grafana self) providers) (\<lambda>provider.
        seq (invoke provider (update_folder (res_uid self) title True)) (\<lambda>_.
        ret ()))))
       (\<lambda>e. case e of
               KeyError k \<Rightarrow> throw (DataError ''Folder model missing 'title' key'')
             | GrafanaException exc \<Rightarrow> throw (GrafanaError (message exc))
             | _ \<Rightarrow> throw e)"

definition Folder_delete :: "resource \<Rightarrow> 's providers \<Rightarrow> (unit, 's) prog" where
  "Folder_delete self providers =
     try_except
       (seq (client (res_grafana self) providers) (\<lambda>provider.
        seq (invoke provider (delete_folder (res_uid self))) (\<lambda>_.
        ret ())))
       (unless_not_found ())"

text \<open>
  \<open>serialize\<close>: the member \<open>model\<close> of the representation is the object \<open>self.model\<close>
  itself, shown here by its content.
\<close>

definition Folder_serialize :: "resource \<Rightarrow> 's providers \<Rightarrow> (json, 's) prog" where
  "Folder_serialize self providers =
     seq (load (res_model self)) (\<lambda>model.
     ret (JObj [(''kind'', JStr ''folder''), (''grafana'', JStr (res_grafana self)),
                (''uid'', res_uid self), (''model'', model)]))"

subsection \<open>Dashboard\<close>

definition IGNORED_KEYS :: "string list" where
  "IGNORED_KEYS = [''id'', ''uid'', ''version'']"

text \<open>The loop \<open>for key in keys: model.pop(key, None)\<close>.\<close>

fun pop_keys :: "string list \<Rightarrow> addr \<Rightarrow> (unit, 's) prog" where
  "pop_keys [] model = ret ()"
| "pop_keys (key # keys) model = seq (obj_pop key model) (\<lambda>_. pop_keys keys model)"

text \<open>
  \<open>Dashboard.get\<close>. The member \<open>dashboard["dashboard"]\<close> of the response is the object
  that the resource refers to; it enters the store when the program takes it.
\<close>

definition Dashboard_get :: "string \<Rightarrow> json \<Rightarrow> 's providers \<Rightarrow> (resource, 's) prog" where
  "Dashboard_get grafana uid providers =
     seq (try_except
            (seq (client grafana providers) (\<lambda>provider.
             invoke provider (get_dashboard uid)))
            raise_GrafanaError) (\<lambda>dashboard.
     seq (lift (getitem dashboard ''dashboard'')) (\<lambda>body.
     seq (new body) (\<lambda>model.
     seq (lift (getitem dashboard ''meta'')) (\<lambda>meta.
     seq (lift (getitem meta ''folderId'')) (\<lambda>folderId.
     seq (Folder_get_by_id grafana folderId providers) (\<lambda>folder.
     seq (pop_keys IGNORED_KEYS model) (\<lambda>_.
     ret (Dashboard grafana uid model (res_uid folder)))))))))"

definition Dashboard_create ::
  "string \<Rightarrow> json \<Rightarrow> addr \<Rightarrow> json \<Rightarrow> 's providers \<Rightarrow> (resource, 's) prog" where
  "Dashboard_create grafana uid model folder providers =
     seq (obj_update [(''id'', JNull), (''uid'', uid), (''version'', JInt 1)] model) (\<lambda>_.
     seq (Folder_get grafana folder providers) (\<lambda>folder_resource.
     seq (Folder_id folder_resource providers) (\<lambda>folderId.
     seq (load model) (\<lambda>body.
     seq (try_except
            (seq (client grafana providers) (\<lambda>provider.
             invoke provider
               (update_dashboard
                  (JObj [(''dashboard'', body), (''folderId'', folderId),
                         (''overwrite'', JBool True)]))))
            raise_GrafanaError) (\<lambda>_.
     Dashboard_get grafana uid providers)))))"

definition Dashboard_exists :: "string \<Rightarrow> json \<Rightarrow> 's providers \<Rightarrow> (bool, 's) prog" where
  "Dashboard_exists grafana uid providers =
     try_except
       (seq (client grafana providers) (\<lambda>provider.
        seq (invoke provider (get_dashboard uid)) (\<lambda>_.
        ret True)))
       (unless_not_found False)"

definition Dashboard_id :: "resource \<Rightarrow> 's providers \<Rightarrow> (json, 's) prog" where
  "Dashboard_id self providers =
     seq (try_except
            (seq (client (res_grafana self) providers) (\<lambda>provider.
             invoke provider (get_dashboard (res_uid self))))
            raise_GrafanaError) (\<lambda>dashboard.
     seq (lift (getitem dashboard ''dashboard'')) (\<lambda>body.
     lift (getitem body ''id'')))"

definition Dashboard_version :: "resource \<Rightarrow> 's providers \<Rightarrow> (json, 's) prog" where
  "Dashboard_version self providers =
     seq (try_except
            (seq (client (res_grafana self) providers) (\<lambda>provider.
             invoke provider (get_dashboard (res_uid self))))
            raise_GrafanaError) (\<lambda>dashboard.
     seq (lift (getitem dashboard ''dashboard'')) (\<lambda>body.
     lift (getitem body ''version'')))"

text \<open>
  \<open>x + 1\<close> on a JSON value: an \<open>int\<close> is incremented, a \<open>bool\<close> counts as 0 or 1, and
  \<open>None\<close>, a string, a list or a dict raise \<open>TypeError\<close>.
\<close>

fun plus_one :: "json \<Rightarrow> error + json" where
  "plus_one (JInt n) = Inr (JInt (n + 1))"
| "plus_one (JBool b) = Inr (JInt (if b then 2 else 1))"
| "plus_one _ = Inl TypeError"

text \<open>
  \<open>Dashboard.update\<close>. In \<open>model.update({"id": self.id(providers), ...})\<close> the method
  \<open>model.update\<close> is looked up first, then \<open>self.id(providers)\<close> is called, then the
  dict is updated.
\<close>

definition Dashboard_update :: "resource \<Rightarrow> addr \<Rightarrow> 's providers \<Rightarrow> (unit, 's) prog" where
  "Dashboard_update self model providers =
     seq (try_except
            (seq (Dashboard_version self providers) (\<lambda>version.
             lift (plus_one version)))
            (\<lambda>e. case e of TypeError \<Rightarrow> ret (JInt 1) | _ \<Rightarrow> throw e)) (\<lambda>version_new.
     seq (obj_update_method model) (\<lambda>_.
     seq (Dashboard_id self providers) (\<lambda>id'.
     seq (obj_update [(''id'', id'), (''uid'', res_uid self), (''version'', version_new)] model) (\<lambda>_.
     seq (Folder_get (res_grafana self) (res_folder self) providers) (\<lambda>folder_resource.
     seq (Folder_id folder_resource providers) (\<lambda>folderId.
     seq (load model) (\<lambda>body.
     seq (try_except
            (seq (client (res_grafana self) providers) (\<lambda>provider.
             invoke provider
               (update_dashboard
                  (JObj [(''dashboard'', body), (''folderId'', folderId),
                         (''overwrite'', JBool True)]))))
            raise_GrafanaError) (\<lambda>_.
     ret ()))))))))"

definition Dashboard_delete :: "resource \<Rightarrow> 's providers \<Rightarrow> (unit, 's) prog" where
  "Dashboard_delete self providers =
     try_except
       (seq (client (res_grafana self) providers) (\<lambda>provider.
        seq (invoke provider (delete_dashboard (res_uid self))) (\<lambda>_.
        ret ())))
       (unless_not_found ())"

definition Dashboard_serialize :: "resource \<Rightarrow> 's providers \<Rightarrow> (json, 's) prog" where
  "Dashboard_serialize self providers =
     seq (load (res_model self)) (\<lambda>model.
     ret (JObj [(''kind'', JStr ''dashboard''), (''grafana'', JStr (res_grafana self)),
                (''uid'', res_uid self), (''model'', model), (''folder'', res_folder self)]))"

section \<open>Example inputs\<close>

text \<open>
  A folder stencil with local evaluations and lookups \<open>{b: 3, c: 4}\<close>, used to run
  the definitions on concrete inputs.
\<close>

definition example_stencil :: "(unit, int) resource_stencil" where
  "example_stencil =
     \<lparr>s_class = FolderStencil, s_kind = ''folder'',
      s_evaluations = Some [(''b'', \<lambda>_. Inr 3), (''c'', \<lambda>_. Inr 4)],
      s_lookups = Some [(''b'', 3), (''c'', 4)],
      s_provider = ''p1'', s_loop = None, s_model = ''{\"title\":\"Team A\"}''\<rparr>"

text \<open>
  Collaborators for the examples: the iterator yields one item per character of the
  loop specification, the renderer returns the template unchanged, and \<open>json.loads\<close>
  knows the two bodies used below.
\<close>

definition example_loads :: "string \<Rightarrow> error + json" where
  "example_loads s =
     (if s = ''{\"title\":\"Team A\"}'' then Inr (JObj [(''title'', JStr ''Team A'')])
      else if s = ''{\"id\":7,\"title\":\"CPU\"}''
        then Inr (JObj [(''id'', JInt 7), (''title'', JStr ''CPU'')])
      else Inl (CollaboratorError ''JSONDecodeError''))"

definition example_collaborators :: "(unit, int) collaborators" where
  "example_collaborators =
     \<lparr>iterable = (\<lambda>l providers evaluations lookups. (map (\<lambda>c. StrItem [c]) l, None)),
      render = (\<lambda>model providers evaluations lookups item. Inr model),
      loads = example_loads\<rparr>"

text \<open>
  A remote service for the examples. Its state is the list of the dashboards it
  holds, each with its uid, the latest first. It has one folder, with the numeric
  id 5 and the uid \<open>f1\<close>, which can be neither created again nor deleted; all its
  dashboards are in this folder.
\<close>

definition not_found :: grafana_exception where
  "not_found = \<lparr>client_error = True, status_code = 404, message = ''Not found''\<rparr>"

definition precondition_failed :: grafana_exception where
  "precondition_failed =
     \<lparr>client_error = True, status_code = 412, message = ''Precondition failed''\<rparr>"

definition server_error :: grafana_exception where
  "server_error = \<lparr>client_error = False, status_code = 500, message = ''Server error''\<rparr>"

definition example_folder :: json where
  "example_folder = JObj [(''id'', JInt 5), (''uid'', JStr ''f1''), (''title'', JStr ''Team A'')]"

fun example_provider :: "(json \<times> json) list provider" where
  "example_provider (get_folder uid) s =
     (if uid = JStr ''f1'' then Inr example_folder else Inl not_found, s)"
| "example_provider (get_folder_by_id i) s =
     (if i = JInt 5 then Inr example_folder else Inl not_found, s)"
| "example_provider (create_folder title uid) s =
     (Inl (if uid = JStr ''f1'' then precondition_failed else server_error), s)"
| "example_provider (update_folder uid title overwrite) s =
     (if uid = JStr ''f1'' then Inr example_folder else Inl not_found, s)"
| "example_provider (delete_folder uid) s =
     (Inl (if uid = JStr ''f1'' then server_error else not_found), s)"
| "example_provider (get_dashboard uid) s =
     (case map_of s uid of
        None \<Rightarrow> Inl not_found
      | Some body \<Rightarrow>
          Inr (JObj [(''dashboard'', body), (''meta'', JObj [(''folderId'', JInt 5)])]),
      s)"
| "example_provider (update_dashboard meta) s =
     (case getitem meta ''dashboard'' of
        Inl e \<Rightarrow> (Inl server_error, s)
      | Inr body \<Rightarrow>
          (case getitem body ''uid'' of
             Inl e \<Rightarrow> (Inl server_error, s)
           | Inr uid \<Rightarrow> (Inr (JObj [(''status'', JStr ''success'')]), (uid, body) # s)))"
| "example_provider (delete_dashboard uid) s =
     (case map_of s uid of
        None \<Rightarrow> (Inl not_found, s)
      | Some body \<Rightarrow> (Inr JNull, filter (\<lambda>(u, b). u \<noteq> uid) s))"

definition example_providers :: "(json \<times> json) list providers" where
  "example_providers = (\<lambda>grafana. if grafana = ''p1'' then Some example_provider else None)"

text \<open>
  The state in which the examples start: the service holds the dashboard \<open>d1\<close> at
  version 3 and the dashboard \<open>d2\<close>, whose body has no member \<open>version\<close>; the store
  holds two dicts of the caller, at the addresses 0 and 1.
\<close>

definition example_world :: "(json \<times> json) list world" where
  "example_world =
     \<lparr>remote =
        [(JStr ''d1'', JObj [(''id'', JInt 7), (''uid'', JStr ''d1''), (''version'', JInt 3),
                             (''title'', JStr ''CPU'')]),
         (JStr ''d2'', JObj [(''id'', JInt 8), (''uid'', JStr ''d2''), (''title'', JStr ''Memory'')])],
      store = [JObj [(''title'', JStr ''CPU''), (''uid'', JStr ''old'')], JObj [(''name'', JStr ''x'')]],
      calls = []\<rparr>"

section \<open>Properties\<close>

text \<open>
  C2. For every kind, logical name and loop item, \<open>format_name\<close> returns
  \<open>kind + "_" + name\<close>, followed by \<open>"_" + str(item)\<close> exactly when the item is truthy;
  the falsy items null, empty string and zero (and \<open>False\<close>) produce no suffix.
\<close>

theorem format_name_suffix_iff_truthy:
  "format_name kind name item =
     kind @ ''_'' @ name @ (if truthy item then ''_'' @ str item else [])
   \<and> (format_name kind name item = kind @ ''_'' @ name \<longleftrightarrow> \<not> truthy item)
   \<and> format_name kind name NoItem = kind @ ''_'' @ name
   \<and> format_name kind name (StrItem []) = kind @ ''_'' @ name
   \<and> format_name kind name (IntItem 0) = kind @ ''_'' @ name
   \<and> format_name kind name (BoolItem False) = kind @ ''_'' @ name"
  by (simp add: format_name_def Let_def)

theorem format_name_suffix_iff_truthy_witness:
  "format_name ''folder'' ''teamA'' (IntItem 7) = ''folder_teamA_7''
   \<and> format_name ''folder'' ''teamA'' (IntItem 0) = ''folder_teamA''
   \<and> format_name ''dashboard'' ''cpu'' (StrItem ''eu'') = ''dashboard_cpu_eu''"
  using format_name_suffix_iff_truthy [of "''folder''" "''teamA''" "IntItem 7"]
        format_name_suffix_iff_truthy [of "''folder''" "''teamA''" "IntItem 0"]
        format_name_suffix_iff_truthy [of "''dashboard''" "''cpu''" "StrItem ''eu''"]
  by (simp add: digits.simps)

subsection \<open>Dictionaries\<close>

lemma map_of_dict_set: "map_of (dict_set k v d) = (map_of d)(k \<mapsto> v)"
  by (induction d) (auto simp: fun_eq_iff)

lemma keys_dict_set:
  "map fst (dict_set k v d) = (if k \<in> set (map fst d) then map fst d else map fst d @ [k])"
  by (induction d) (auto simp: rev_image_eqI)

lemma distinct_dict_set: "distinct (map fst d) \<Longrightarrow> distinct (map fst (dict_set k v d))"
  by (simp add: keys_dict_set)

lemma map_of_dict_update:
  "distinct (map fst items) \<Longrightarrow> map_of (dict_update items d) = map_of d ++ map_of items"
  unfolding dict_update_def
proof (induction items arbitrary: d)
  case Nil
  then show ?case by simp
next
  case (Cons x items)
  obtain k v where x: "x = (k, v)" by (cases x)
  from Cons.prems x have nk: "map_of items k = None" and di: "distinct (map fst items)"
    by (auto simp: map_of_eq_None_iff)
  show ?case
    using Cons.IH [OF di, of "dict_set k v d"] nk
    by (auto simp: x map_of_dict_set fun_eq_iff map_add_def split: option.splits)
qed

lemma distinct_dict_update:
  "distinct (map fst d) \<Longrightarrow> distinct (map fst (dict_update items d))"
  unfolding dict_update_def
  by (induction items arbitrary: d) (auto simp: distinct_dict_set)

lemma map_of_dict_merge:
  "distinct (map fst a) \<Longrightarrow> distinct (map fst b) \<Longrightarrow>
   map_of (dict_merge a b) = map_of a ++ map_of b"
  by (simp add: dict_merge_def map_of_dict_update)

lemma distinct_dict_merge: "distinct (map fst (dict_merge a b))"
  by (simp add: dict_merge_def distinct_dict_update)

lemma force_all_Inr_map_of:
  "force_all p d = Inr vs \<Longrightarrow>
   map_of vs n = (case map_of d n of None \<Rightarrow> None
                  | Some ev \<Rightarrow> (case ev p of Inl e \<Rightarrow> None | Inr v \<Rightarrow> Some v))"
proof (induction d arbitrary: vs)
  case Nil
  then show ?case by simp
next
  case (Cons x d)
  then show ?case
    by (cases x) (auto split: sum.splits option.splits)
qed

lemma force_all_Inr_iff:
  "(\<exists>vs. force_all p d = Inr vs) \<longleftrightarrow> (\<forall>(n, ev) \<in> set d. \<exists>v. ev p = Inr v)"
proof (induction d)
  case Nil
  then show ?case by simp
next
  case (Cons x d)
  then show ?case
    by (cases x) (auto split: sum.splits)
qed

lemma force_all_keys: "force_all p d = Inr vs \<Longrightarrow> map fst vs = map fst d"
proof (induction d arbitrary: vs)
  case Nil
  then show ?case by simp
next
  case (Cons x d)
  then show ?case
    by (cases x) (auto split: sum.splits)
qed

lemma or_empty_None: "or_empty None = or_empty (Some [])"
  by (simp add: or_empty_def)

lemma or_empty_Some: "or_empty (Some d) = d"
  by (simp add: or_empty_def)

subsection \<open>Variable resolution\<close>

text \<open>
  C4. \<open>resolve_vars\<close> treats absent inherited maps as empty maps and does not fail on
  them; it layers the stencil's own bindings on top of the inherited ones, a local
  entry overriding an inherited one of the same name; every merged evaluation is
  forced with the provider registry (the call fails exactly when one of them fails),
  and lookups pass through unchanged. Inherited \<open>{a: 1, b: 2}\<close> with local
  \<open>{b: 3, c: 4}\<close> resolves to \<open>{a: 1, b: 3, c: 4}\<close> for evaluations and lookups.
  The hypotheses say that the four dicts are dicts: their keys are distinct.
\<close>

theorem resolve_vars_layers:
  fixes self :: "('p, 'v) resource_stencil"
  assumes "distinct (map fst (or_empty evaluations))"
    and "distinct (map fst (or_empty lookups))"
    and "distinct (map fst (or_empty (s_evaluations self)))"
    and "distinct (map fst (or_empty (s_lookups self)))"
  shows
    "resolve_vars self providers None lookups = resolve_vars self providers (Some []) lookups
     \<and> resolve_vars self providers evaluations None
         = resolve_vars self providers evaluations (Some [])
     \<and> resolve_vars (self\<lparr>s_evaluations := None, s_lookups := None\<rparr>) providers None None
         = Inr ([], [])
     \<and> (\<forall>es ls. resolve_vars self providers evaluations lookups = Inr (es, ls) \<longrightarrow>
           map_of ls = map_of (or_empty lookups) ++ map_of (or_empty (s_lookups self))
           \<and> (\<forall>n. map_of es n =
                 (case (map_of (or_empty evaluations)
                         ++ map_of (or_empty (s_evaluations self))) n of
                    None \<Rightarrow> None
                  | Some ev \<Rightarrow> (case ev providers of Inl e \<Rightarrow> None | Inr v \<Rightarrow> Some v))))
     \<and> ((\<exists>es ls. resolve_vars self providers evaluations lookups = Inr (es, ls)) \<longleftrightarrow>
          (\<forall>n ev. (map_of (or_empty evaluations)
                     ++ map_of (or_empty (s_evaluations self))) n = Some ev
                   \<longrightarrow> (\<exists>v. ev providers = Inr v)))
     \<and> resolve_vars
          (self\<lparr>s_evaluations := Some [(''b'', \<lambda>_. Inr v3), (''c'', \<lambda>_. Inr v4)],
                s_lookups := Some [(''b'', v3), (''c'', v4)]\<rparr>)
          providers
          (Some [(''a'', \<lambda>_. Inr v1), (''b'', \<lambda>_. Inr v2)])
          (Some [(''a'', v1), (''b'', v2)])
         = Inr ([(''a'', v1), (''b'', v3), (''c'', v4)],
                [(''a'', v1), (''b'', v3), (''c'', v4)])"
proof -
  let ?me = "dict_merge (or_empty evaluations) (or_empty (s_evaluations self))"
  let ?ml = "dict_merge (or_empty lookups) (or_empty (s_lookups self))"
  have me: "map_of ?me = map_of (or_empty evaluations) ++ map_of (or_empty (s_evaluations self))"
    using assms by (simp add: map_of_dict_merge)
  have ml: "map_of ?ml = map_of (or_empty lookups) ++ map_of (or_empty (s_lookups self))"
    using assms by (simp add: map_of_dict_merge)
  have rv: "resolve_vars self providers evaluations lookups =
              (case force_all providers ?me of Inl e \<Rightarrow> Inl e | Inr es \<Rightarrow> Inr (es, ?ml))"
    by (simp add: resolve_vars_def Let_def)
  have c1: "resolve_vars self providers None lookups
              = resolve_vars self providers (Some []) lookups"
    by (simp add: resolve_vars_def or_empty_def)
  have c2: "resolve_vars self providers evaluations None
              = resolve_vars self providers evaluations (Some [])"
    by (simp add: resolve_vars_def or_empty_def)
  have c3: "resolve_vars (self\<lparr>s_evaluations := None, s_lookups := None\<rparr>) providers None None
              = Inr ([], [])"
    by (simp add: resolve_vars_def or_empty_def dict_merge_def dict_update_def)
  have c4: "\<forall>es ls. resolve_vars self providers evaluations lookups = Inr (es, ls) \<longrightarrow>
           map_of ls = map_of (or_empty lookups) ++ map_of (or_empty (s_lookups self))
           \<and> (\<forall>n. map_of es n =
                 (case (map_of (or_empty evaluations)
                         ++ map_of (or_empty (s_evaluations self))) n of
                    None \<Rightarrow> None
                  | Some ev \<Rightarrow> (case ev providers of Inl e \<Rightarrow> None | Inr v \<Rightarrow> Some v)))"
  proof (intro allI impI)
    fix es ls
    assume r: "resolve_vars self providers evaluations lookups = Inr (es, ls)"
    then have f: "force_all providers ?me = Inr es" and l: "ls = ?ml"
      by (auto simp: rv split: sum.splits)
    show "map_of ls = map_of (or_empty lookups) ++ map_of (or_empty (s_lookups self))
           \<and> (\<forall>n. map_of es n =
                 (case (map_of (or_empty evaluations)
                         ++ map_of (or_empty (s_evaluations self))) n of
                    None \<Rightarrow> None
                  | Some ev \<Rightarrow> (case ev providers of Inl e \<Rightarrow> None | Inr v \<Rightarrow> Some v)))"
      using force_all_Inr_map_of [OF f] l ml me by simp
  qed
  have dm: "distinct (map fst ?me)" by (rule distinct_dict_merge)
  have c5: "(\<exists>es ls. resolve_vars self providers evaluations lookups = Inr (es, ls)) \<longleftrightarrow>
          (\<forall>n ev. (map_of (or_empty evaluations)
                     ++ map_of (or_empty (s_evaluations self))) n = Some ev
                   \<longrightarrow> (\<exists>v. ev providers = Inr v))"
  proof -
    have "(\<exists>es ls. resolve_vars self providers evaluations lookups = Inr (es, ls))
            \<longleftrightarrow> (\<exists>es. force_all providers ?me = Inr es)"
      by (auto simp: rv split: sum.splits)
    also have "\<dots> \<longleftrightarrow> (\<forall>(n, ev) \<in> set ?me. \<exists>v. ev providers = Inr v)"
      by (rule force_all_Inr_iff)
    also have "\<dots> \<longleftrightarrow> (\<forall>n ev. map_of ?me n = Some ev \<longrightarrow> (\<exists>v. ev providers = Inr v))"
      using dm by (auto simp: map_of_eq_Some_iff)
    finally show ?thesis by (simp only: me)
  qed
  have c6: "resolve_vars
          (self\<lparr>s_evaluations := Some [(''b'', \<lambda>_. Inr v3), (''c'', \<lambda>_. Inr v4)],
                s_lookups := Some [(''b'', v3), (''c'', v4)]\<rparr>)
          providers
          (Some [(''a'', \<lambda>_. Inr v1), (''b'', \<lambda>_. Inr v2)])
          (Some [(''a'', v1), (''b'', v2)])
         = Inr ([(''a'', v1), (''b'', v3), (''c'', v4)],
                [(''a'', v1), (''b'', v3), (''c'', v4)])"
    by (simp add: resolve_vars_def or_empty_def dict_merge_def dict_update_def)
  from c1 c2 c3 c4 c5 c6 show ?thesis by blast
qed

theorem resolve_vars_layers_witness:
  "distinct (map fst (or_empty (Some [(''a'', \<lambda>_::unit. Inr (1::int) :: error + int), (''b'', \<lambda>_. Inr 2)])))
   \<and> distinct (map fst (or_empty (Some [(''a'', 1::int), (''b'', 2)])))
   \<and> distinct (map fst (or_empty (s_evaluations example_stencil)))
   \<and> distinct (map fst (or_empty (s_lookups example_stencil)))
   \<and> resolve_vars example_stencil ()
        (Some [(''a'', \<lambda>_. Inr 1), (''b'', \<lambda>_. Inr 2)]) (Some [(''a'', 1), (''b'', 2)])
       = Inr ([(''a'', 1), (''b'', 3), (''c'', 4)], [(''a'', 1), (''b'', 3), (''c'', 4)])
   \<and> resolve_vars example_stencil () None (Some [(''a'', 1), (''b'', 2)])
       = resolve_vars example_stencil () (Some []) (Some [(''a'', 1), (''b'', 2)])"
proof -
  have h1: "distinct (map fst (or_empty (Some [(''a'', \<lambda>_::unit. Inr (1::int) :: error + int), (''b'', \<lambda>_. Inr 2)])))"
    by (simp add: or_empty_def)
  have h2: "distinct (map fst (or_empty (Some [(''a'', 1::int), (''b'', 2)])))"
    by (simp add: or_empty_def)
  have h3: "distinct (map fst (or_empty (s_evaluations example_stencil)))"
    by (simp add: or_empty_def example_stencil_def)
  have h4: "distinct (map fst (or_empty (s_lookups example_stencil)))"
    by (simp add: or_empty_def example_stencil_def)
  have e: "example_stencil\<lparr>s_evaluations := Some [(''b'', \<lambda>_. Inr 3), (''c'', \<lambda>_. Inr 4)],
                s_lookups := Some [(''b'', 3), (''c'', 4)]\<rparr> = example_stencil"
    by (simp add: example_stencil_def)
  show ?thesis
    using resolve_vars_layers [OF h1 h2 h3 h4, of "()" 3 4 1 2] h1 h2 h3 h4
    by (simp only: e)
qed

subsection \<open>Identifiers\<close>

lemma length_le_bytes: "length (le_bytes n w) = n"
  by (simp add: le_bytes_def)

lemma length_md5: "length (md5 msg) = 16"
  by (simp add: md5_def length_le_bytes split: prod.splits)

lemma length_hexdigest: "length (hexdigest bs) = 2 * length bs"
  by (induction bs) (simp_all add: hexdigest_def)

lemma high_nibble_less: "unat (drop_bit 4 (b :: 8 word)) < 16"
proof -
  have "unat b < 256" using unsigned_less [of b] by simp
  moreover have "unat (drop_bit 4 b) = unat b div 2 ^ 4"
    by (simp add: drop_bit_eq_div unat_div)
  ultimately show ?thesis by simp
qed

lemma low_nibble_less: "unat ((b :: 8 word) AND 15) < 16"
proof -
  have "unat (b AND 15) \<le> unat (15 :: 8 word)"
    by (rule word_and_le1 [THEN word_le_nat_alt [THEN iffD1]])
  then show ?thesis by simp
qed

lemma set_hexdigest: "set (hexdigest bs) \<subseteq> set hex_digits"
proof -
  have len: "length hex_digits = 16" by (simp add: hex_digits_def)
  have hi: "hex_digits ! unat (drop_bit 4 b) \<in> set hex_digits" for b :: "8 word"
    by (rule nth_mem) (simp only: len high_nibble_less)
  have lo: "hex_digits ! unat (b AND 15) \<in> set hex_digits" for b :: "8 word"
    by (rule nth_mem) (simp only: len low_nibble_less)
  have "hexdigest bs = concat (map (\<lambda>b. [hex_digits ! unat (drop_bit 4 b),
                        hex_digits ! unat (b AND 15)]) bs)"
    by (simp only: hexdigest_def)
  then show ?thesis
    using hi lo by (induction bs arbitrary:) (auto simp only: set_concat set_map UN_iff image_iff list.set insert_iff empty_iff subset_iff)
qed

subsection \<open>Stencil resolution\<close>

lemma make_resource_Inr:
  "make_resource env self grafana uid model providers h = (Inr r, h')
   \<Longrightarrow> res_uid r = JStr uid \<and> res_grafana r = grafana"
  by (auto simp: make_resource_def Folder_make_resource_def Dashboard_make_resource_def
        Let_def split: stencil_class.splits sum.splits prod.splits)

lemma set_dict_set_subset: "set (dict_set k v d) \<subseteq> insert (k, v) (set d)"
  by (induction d) (auto split: if_splits)

lemma resolve_loop_Cons_Inr:
  assumes "resolve_loop env self name providers es ls (item # items) acc h = (Inr rs, h')"
  shows "\<exists>model r h1.
           render env (s_model self) providers es ls item = Inr model
         \<and> make_resource env self (s_provider self)
               (format_uid (format_name (s_kind self) name item)) model providers h = (Inr r, h1)
         \<and> resolve_loop env self name providers es ls items
               (dict_set (format_name (s_kind self) name item) r acc) h1 = (Inr rs, h')"
proof (cases "render env (s_model self) providers es ls item")
  case (Inl e)
  with assms show ?thesis by (simp add: Let_def)
next
  case (Inr model)
  obtain x h1 where mk: "make_resource env self (s_provider self)
               (format_uid (format_name (s_kind self) name item)) model providers h = (x, h1)"
    by (cases "make_resource env self (s_provider self)
               (format_uid (format_name (s_kind self) name item)) model providers h")
  show ?thesis
  proof (cases x)
    case (Inl e)
    with assms Inr mk show ?thesis by (simp add: Let_def)
  next
    case r: (Inr r)
    with assms Inr mk show ?thesis by (simp add: Let_def dict_update_def)
  qed
qed

lemma remdups_append_mem: "n \<in> set ys \<Longrightarrow> remdups (xs @ n # ys) = remdups (xs @ ys)"
  by (induction xs) auto

lemma resolve_loop_Inr:
  assumes "resolve_loop env self name providers es ls items acc h = (Inr rs, h')"
    and "distinct (map fst acc)"
    and "\<forall>(n, r) \<in> set acc. P n r"
    and "\<And>item r. item \<in> set items
          \<Longrightarrow> res_uid r = JStr (format_uid (format_name (s_kind self) name item))
          \<Longrightarrow> res_grafana r = s_provider self
          \<Longrightarrow> P (format_name (s_kind self) name item) r"
  shows "map fst rs
           = rev (remdups (rev (map fst acc @ map (format_name (s_kind self) name) items)))
         \<and> (\<forall>(n, r) \<in> set rs. P n r)"
  using assms
proof (induction items arbitrary: acc h)
  case Nil
  then show ?case by (simp add: distinct_remdups_id)
next
  case (Cons item items)
  let ?n = "format_name (s_kind self) name item"
  from resolve_loop_Cons_Inr [OF Cons.prems(1)] obtain model r h1 where
      rd: "render env (s_model self) providers es ls item = Inr model"
    and mk: "make_resource env self (s_provider self) (format_uid ?n) model providers h = (Inr r, h1)"
    and rest: "resolve_loop env self name providers es ls items (dict_set ?n r acc) h1 = (Inr rs, h')"
    by blast
  have Pr: "P ?n r"
    using make_resource_Inr [OF mk] Cons.prems(4) [of item r] by simp
  have d: "distinct (map fst (dict_set ?n r acc))"
    using Cons.prems(2) by (rule distinct_dict_set)
  have inv: "\<forall>(n, r) \<in> set (dict_set ?n r acc). P n r"
    using set_dict_set_subset [of ?n r acc] Pr Cons.prems(3) by auto
  have step: "\<And>item r. item \<in> set items \<Longrightarrow>
      res_uid r = JStr (format_uid (format_name (s_kind self) name item)) \<Longrightarrow>
      res_grafana r = s_provider self \<Longrightarrow> P (format_name (s_kind self) name item) r"
    using Cons.prems(4) by simp
  note IH = Cons.IH [OF rest d inv step]
  have ih: "map fst rs = rev (remdups (rev (map fst (dict_set ?n r acc)
                 @ map (format_name (s_kind self) name) items)))"
    by (rule IH [THEN conjunct1])
  have ihP: "\<forall>(n, r) \<in> set rs. P n r"
    by (rule IH [THEN conjunct2])
  have "rev (remdups (rev (map fst (dict_set ?n r acc) @ map (format_name (s_kind self) name) items)))
      = rev (remdups (rev (map fst acc @ map (format_name (s_kind self) name) (item # items))))"
  proof (cases "?n \<in> set (map fst acc)")
    case True
    then have m: "?n \<in> set (rev (map fst acc))" by simp
    have k: "map fst (dict_set ?n r acc) = map fst acc"
      using True by (simp only: keys_dict_set if_True)
    have "rev (map fst acc @ map (format_name (s_kind self) name) (item # items))
           = rev (map (format_name (s_kind self) name) items) @ ?n # rev (map fst acc)"
      by simp
    moreover have "rev (map fst acc @ map (format_name (s_kind self) name) items)
           = rev (map (format_name (s_kind self) name) items) @ rev (map fst acc)"
      by simp
    ultimately show ?thesis
      using remdups_append_mem [OF m, of "rev (map (format_name (s_kind self) name) items)"]
      by (simp only: k)
  next
    case False
    then have k: "map fst (dict_set ?n r acc) = map fst acc @ [?n]"
      by (simp only: keys_dict_set if_False)
    show ?thesis by (simp only: k) simp
  qed
  with ih have "map fst rs
      = rev (remdups (rev (map fst acc @ map (format_name (s_kind self) name) (item # items))))"
    by (rule trans)
  then show ?case using ihP by blast
qed

lemma format_uid_folder_teamA:
  "format_uid ''folder_teamA'' = ''gdbt_9123169fd2b4d254ad07d69e8e15e063''"
  by code_simp

text \<open>
  A successful \<open>resolve\<close> is a successful \<open>resolve_vars\<close>, a run of the generator that
  stops by exhaustion, and a successful run of the loop body over its items.
\<close>

lemma resolve_Inr:
  assumes "resolve env self name providers evaluations lookups h = (Inr rs, h')"
  shows "\<exists>es ls items.
           resolve_vars self providers evaluations lookups = Inr (es, ls)
         \<and> resolve_loops env self providers es ls = (items, None)
         \<and> resolve_loop env self name providers es ls items [] h = (Inr rs, h')"
proof (cases "resolve_vars self providers evaluations lookups")
  case (Inl e)
  with assms show ?thesis by (simp add: resolve_def)
next
  case (Inr p)
  obtain es ls where p: "p = (es, ls)" by (cases p)
  obtain items stop where l: "resolve_loops env self providers es ls = (items, stop)"
    by (cases "resolve_loops env self providers es ls")
  obtain x h1 where b: "resolve_loop env self name providers es ls items [] h = (x, h1)"
    by (cases "resolve_loop env self name providers es ls items [] h")
  from assms Inr p l b have "x = Inr rs \<and> h1 = h' \<and> stop = None"
    by (cases x; cases stop) (simp_all add: resolve_def)
  with Inr p l b show ?thesis by simp
qed


lemma resolve_uids:
  assumes "resolve_loop env self name providers es ls items [] h = (Inr rs, h')"
  shows "\<forall>(n, r) \<in> set rs.
            res_uid r = JStr (format_uid n) \<and> res_grafana r = s_provider self
          \<and> (\<exists>item \<in> set items. n = format_name (s_kind self) name item)"
  using resolve_loop_Inr [OF assms,
      of "\<lambda>n r. res_uid r = JStr (format_uid n) \<and> res_grafana r = s_provider self
         \<and> (\<exists>item \<in> set items. n = format_name (s_kind self) name item)"]
  by auto

lemma resolve_items_covered:
  assumes "resolve_loop env self name providers es ls items [] h = (Inr rs, h')"
    and "item \<in> set items"
  shows "\<exists>r. (format_name (s_kind self) name item, r) \<in> set rs
             \<and> res_uid r = JStr (format_uid (format_name (s_kind self) name item))"
proof -
  from resolve_loop_Inr [OF assms(1), of "\<lambda>n r. True"]
  have "map fst rs = rev (remdups (rev (map (format_name (s_kind self) name) items)))"
    by simp
  then have "set (map fst rs) = set (map (format_name (s_kind self) name) items)"
    by simp
  with assms(2) have "format_name (s_kind self) name item \<in> set (map fst rs)"
    by simp
  then obtain r where r: "(format_name (s_kind self) name item, r) \<in> set rs"
    by auto
  with resolve_uids [OF assms(1)] show ?thesis by auto
qed

lemma resolve_no_loop:
  assumes "resolve env self name providers evaluations lookups h = (Inr rs, h')"
    and "s_loop self = None \<or> s_loop self = Some []"
  shows "\<exists>r. rs = [(format_name (s_kind self) name NoItem, r)]
             \<and> res_uid r = JStr (format_uid (format_name (s_kind self) name NoItem))"
proof -
  from resolve_Inr [OF assms(1)] obtain es ls items where
      l: "resolve_loops env self providers es ls = (items, None)"
    and b: "resolve_loop env self name providers es ls items [] h = (Inr rs, h')"
    by blast
  from l assms(2) have "items = [NoItem]"
    by (auto simp: resolve_loops_def)
  with b have "resolve_loop env self name providers es ls [NoItem] [] h = (Inr rs, h')"
    by simp
  from resolve_loop_Cons_Inr [OF this] obtain model r h1 where
      mk: "make_resource env self (s_provider self)
             (format_uid (format_name (s_kind self) name NoItem)) model providers h = (Inr r, h1)"
    and rs: "resolve_loop env self name providers es ls []
               (dict_set (format_name (s_kind self) name NoItem) r []) h1 = (Inr rs, h')"
    by blast
  from rs have "rs = [(format_name (s_kind self) name NoItem, r)]" by simp
  with make_resource_Inr [OF mk] show ?thesis by simp
qed

lemma example_resolve:
  "resolve example_collaborators example_stencil ''teamA'' () None None []
     = (Inr [(''folder_teamA'', Folder ''p1'' (JStr (format_uid ''folder_teamA'')) 0)],
        [JObj [(''title'', JStr ''Team A'')]])"
  by (simp add: resolve_def resolve_vars_def resolve_loops_def example_stencil_def
        example_collaborators_def example_loads_def or_empty_def dict_merge_def dict_update_def
        Let_def format_name_def make_resource_def Folder_make_resource_def alloc_def)

lemma example_resolve_loop:
  "resolve example_collaborators (example_stencil\<lparr>s_loop := Some ''ab''\<rparr>) ''teamA'' () None None []
     = (Inr [(''folder_teamA_a'', Folder ''p1'' (JStr (format_uid ''folder_teamA_a'')) 0),
             (''folder_teamA_b'', Folder ''p1'' (JStr (format_uid ''folder_teamA_b'')) 1)],
        [JObj [(''title'', JStr ''Team A'')], JObj [(''title'', JStr ''Team A'')]])"
  by (simp add: resolve_def resolve_vars_def resolve_loops_def example_stencil_def
        example_collaborators_def example_loads_def or_empty_def dict_merge_def dict_update_def
        Let_def format_name_def make_resource_def Folder_make_resource_def alloc_def)


text \<open>
  C3. \<open>format_uid(name)\<close> is \<open>"gdbt_"\<close> followed by the hexadecimal form of the
  128-bit MD5 digest of the encoded name: 5 + 32 characters, the last 32 of them
  hexadecimal digits. It is a function of the name, so equal names give equal uids.
  When \<open>resolve\<close> returns, with \<open>items\<close> the items that the loop has yielded: every
  resource returned has the uid \<open>format_uid\<close> of its key, and the key is \<open>format_name\<close>
  of one of the \<open>items\<close>; and for every one of the \<open>items\<close> the result holds a resource
  under \<open>format_name\<close> of the item with the uid \<open>format_uid(format_name(kind, name, item))\<close>.
  A stencil of kind \<open>folder\<close> without a loop, resolved with the name \<open>teamA\<close>, yields
  one resource named \<open>folder_teamA\<close> with uid \<open>gdbt_9123169fd2b4d254ad07d69e8e15e063\<close>,
  which is \<open>"gdbt_" + md5("folder_teamA")\<close>.
\<close>

theorem format_uid_md5:
  "format_uid name = ''gdbt_'' @ hexdigest (md5 (encode name))
   \<and> length (md5 (encode name)) = 16
   \<and> length (format_uid name) = 37
   \<and> set (drop 5 (format_uid name)) \<subseteq> set ''0123456789abcdef''
   \<and> (resolve env self nm providers evaluations lookups h = (Inr rs, h') \<longrightarrow>
        (\<exists>es ls items.
            resolve_vars self providers evaluations lookups = Inr (es, ls)
          \<and> resolve_loops env self providers es ls = (items, None)
          \<and> (\<forall>(n, r) \<in> set rs.
                 res_uid r = JStr (format_uid n)
               \<and> (\<exists>item \<in> set items. n = format_name (s_kind self) nm item))
          \<and> (\<forall>item \<in> set items. \<exists>r.
                 (format_name (s_kind self) nm item, r) \<in> set rs
               \<and> res_uid r = JStr (format_uid (format_name (s_kind self) nm item)))))
   \<and> (s_kind self = ''folder'' \<and> s_loop self = None
        \<and> resolve env self ''teamA'' providers evaluations lookups h = (Inr rs, h') \<longrightarrow>
        map (\<lambda>(n, r). (n, res_uid r)) rs
          = [(''folder_teamA'', JStr ''gdbt_9123169fd2b4d254ad07d69e8e15e063'')])"
proof -
  have c1: "format_uid name = ''gdbt_'' @ hexdigest (md5 (encode name))"
    by (simp add: format_uid_def)
  have c2: "length (md5 (encode name)) = 16" by (rule length_md5)
  have c3: "length (format_uid name) = 37"
    by (simp add: format_uid_def length_hexdigest length_md5)
  have "drop 5 (format_uid name) = hexdigest (md5 (encode name))"
    by (simp add: format_uid_def)
  then have c4: "set (drop 5 (format_uid name)) \<subseteq> set ''0123456789abcdef''"
    using set_hexdigest [of "md5 (encode name)"] by (simp only: hex_digits_def)
  have c5: "resolve env self nm providers evaluations lookups h = (Inr rs, h') \<longrightarrow>
        (\<exists>es ls items.
            resolve_vars self providers evaluations lookups = Inr (es, ls)
          \<and> resolve_loops env self providers es ls = (items, None)
          \<and> (\<forall>(n, r) \<in> set rs.
                 res_uid r = JStr (format_uid n)
               \<and> (\<exists>item \<in> set items. n = format_name (s_kind self) nm item))
          \<and> (\<forall>item \<in> set items. \<exists>r.
                 (format_name (s_kind self) nm item, r) \<in> set rs
               \<and> res_uid r = JStr (format_uid (format_name (s_kind self) nm item))))"
  proof
    assume "resolve env self nm providers evaluations lookups h = (Inr rs, h')"
    from resolve_Inr [OF this] obtain es ls items where
        v: "resolve_vars self providers evaluations lookups = Inr (es, ls)"
      and l: "resolve_loops env self providers es ls = (items, None)"
      and b: "resolve_loop env self nm providers es ls items [] h = (Inr rs, h')"
      by blast
    have u: "\<forall>(n, r) \<in> set rs.
                 res_uid r = JStr (format_uid n)
               \<and> (\<exists>item \<in> set items. n = format_name (s_kind self) nm item)"
      using resolve_uids [OF b] by auto
    have i: "\<forall>item \<in> set items. \<exists>r.
                 (format_name (s_kind self) nm item, r) \<in> set rs
               \<and> res_uid r = JStr (format_uid (format_name (s_kind self) nm item))"
      using resolve_items_covered [OF b] by blast
    from v l u i show "\<exists>es ls items.
            resolve_vars self providers evaluations lookups = Inr (es, ls)
          \<and> resolve_loops env self providers es ls = (items, None)
          \<and> (\<forall>(n, r) \<in> set rs.
                 res_uid r = JStr (format_uid n)
               \<and> (\<exists>item \<in> set items. n = format_name (s_kind self) nm item))
          \<and> (\<forall>item \<in> set items. \<exists>r.
                 (format_name (s_kind self) nm item, r) \<in> set rs
               \<and> res_uid r = JStr (format_uid (format_name (s_kind self) nm item)))"
      by blast
  qed
  have c6: "s_kind self = ''folder'' \<and> s_loop self = None
        \<and> resolve env self ''teamA'' providers evaluations lookups h = (Inr rs, h') \<longrightarrow>
        map (\<lambda>(n, r). (n, res_uid r)) rs
          = [(''folder_teamA'', JStr ''gdbt_9123169fd2b4d254ad07d69e8e15e063'')]"
  proof (intro impI, elim conjE)
    assume k: "s_kind self = ''folder''" and l: "s_loop self = None"
      and r: "resolve env self ''teamA'' providers evaluations lookups h = (Inr rs, h')"
    from resolve_no_loop [OF r] l obtain x where
      "rs = [(format_name (s_kind self) ''teamA'' NoItem, x)]"
      "res_uid x = JStr (format_uid (format_name (s_kind self) ''teamA'' NoItem))"
      by blast
    moreover have "format_name (s_kind self) ''teamA'' NoItem = ''folder_teamA''"
      by (simp add: format_name_def k)
    ultimately show "map (\<lambda>(n, r). (n, res_uid r)) rs
          = [(''folder_teamA'', JStr ''gdbt_9123169fd2b4d254ad07d69e8e15e063'')]"
      by (simp add: format_uid_folder_teamA)
  qed
  from c1 c2 c3 c4 c5 c6 show ?thesis by blast
qed

theorem format_uid_md5_witness:
  "resolve example_collaborators example_stencil ''teamA'' () None None []
     = (Inr [(''folder_teamA'', Folder ''p1'' (JStr ''gdbt_9123169fd2b4d254ad07d69e8e15e063'') 0)],
        [JObj [(''title'', JStr ''Team A'')]])
   \<and> resolve example_collaborators (example_stencil\<lparr>s_loop := Some ''ab''\<rparr>) ''teamA'' () None None []
     = (Inr [(''folder_teamA_a'', Folder ''p1'' (JStr (format_uid ''folder_teamA_a'')) 0),
             (''folder_teamA_b'', Folder ''p1'' (JStr (format_uid ''folder_teamA_b'')) 1)],
        [JObj [(''title'', JStr ''Team A'')], JObj [(''title'', JStr ''Team A'')]])
   \<and> (\<exists>r. (format_name ''folder'' ''teamA'' (StrItem ''b''), r)
             \<in> set [(''folder_teamA_a'', Folder ''p1'' (JStr (format_uid ''folder_teamA_a'')) 0),
                    (''folder_teamA_b'', Folder ''p1'' (JStr (format_uid ''folder_teamA_b'')) 1)]
          \<and> res_uid r = JStr (format_uid (format_name ''folder'' ''teamA'' (StrItem ''b''))))"
proof -
  have k: "s_kind example_stencil = ''folder''" and l: "s_loop example_stencil = None"
    by (simp_all add: example_stencil_def)
  let ?rs = "[(''folder_teamA'', Folder ''p1'' (JStr (format_uid ''folder_teamA'')) 0)]"
  from format_uid_md5 [of "''folder_teamA''" example_collaborators example_stencil "''teamA''"
      "()" None None "[]" ?rs "[JObj [(''title'', JStr ''Team A'')]]"]
  have "s_kind example_stencil = ''folder'' \<and> s_loop example_stencil = None
        \<and> resolve example_collaborators example_stencil ''teamA'' () None None []
            = (Inr ?rs, [JObj [(''title'', JStr ''Team A'')]]) \<longrightarrow>
        map (\<lambda>(n, r). (n, res_uid r)) ?rs
          = [(''folder_teamA'', JStr ''gdbt_9123169fd2b4d254ad07d69e8e15e063'')]"
    by blast
  with k l example_resolve
  have "map (\<lambda>(n, r). (n, res_uid r)) ?rs
          = [(''folder_teamA'', JStr ''gdbt_9123169fd2b4d254ad07d69e8e15e063'')]"
    by blast
  then have "format_uid ''folder_teamA'' = ''gdbt_9123169fd2b4d254ad07d69e8e15e063''"
    by simp
  with example_resolve have w1:
    "resolve example_collaborators example_stencil ''teamA'' () None None []
     = (Inr [(''folder_teamA'', Folder ''p1'' (JStr ''gdbt_9123169fd2b4d254ad07d69e8e15e063'') 0)],
        [JObj [(''title'', JStr ''Team A'')]])"
    by simp
  let ?st = "example_stencil\<lparr>s_loop := Some ''ab''\<rparr>"
  let ?ls = "[(''folder_teamA_a'', Folder ''p1'' (JStr (format_uid ''folder_teamA_a'')) 0),
             (''folder_teamA_b'', Folder ''p1'' (JStr (format_uid ''folder_teamA_b'')) 1)]"
  let ?h = "[JObj [(''title'', JStr ''Team A'')], JObj [(''title'', JStr ''Team A'')]]"
  have sk: "s_kind ?st = ''folder''" by (simp add: example_stencil_def)
  from format_uid_md5 [of "''folder_teamA''" example_collaborators ?st "''teamA''"
      "()" None None "[]" ?ls ?h]
  have "resolve example_collaborators ?st ''teamA'' () None None [] = (Inr ?ls, ?h) \<longrightarrow>
        (\<exists>es ls items.
            resolve_vars ?st () None None = Inr (es, ls)
          \<and> resolve_loops example_collaborators ?st () es ls = (items, None)
          \<and> (\<forall>item \<in> set items. \<exists>r.
                 (format_name (s_kind ?st) ''teamA'' item, r) \<in> set ?ls
               \<and> res_uid r = JStr (format_uid (format_name (s_kind ?st) ''teamA'' item))))"
    by blast
  with example_resolve_loop obtain es ls items where
      v: "resolve_vars ?st () None None = Inr (es, ls)"
    and lp: "resolve_loops example_collaborators ?st () es ls = (items, None)"
    and c: "\<forall>item \<in> set items. \<exists>r.
                 (format_name (s_kind ?st) ''teamA'' item, r) \<in> set ?ls
               \<and> res_uid r = JStr (format_uid (format_name (s_kind ?st) ''teamA'' item))"
    by blast
  from lp have "items = [StrItem ''a'', StrItem ''b'']"
    by (simp add: resolve_loops_def example_stencil_def example_collaborators_def)
  then have "StrItem ''b'' \<in> set items" by simp
  with c have "\<exists>r. (format_name (s_kind ?st) ''teamA'' (StrItem ''b''), r) \<in> set ?ls
               \<and> res_uid r = JStr (format_uid (format_name (s_kind ?st) ''teamA'' (StrItem ''b'')))"
    by (rule bspec)
  then have w3: "\<exists>r. (format_name ''folder'' ''teamA'' (StrItem ''b''), r) \<in> set ?ls
               \<and> res_uid r = JStr (format_uid (format_name ''folder'' ''teamA'' (StrItem ''b'')))"
    by (simp only: sk)
  from w1 example_resolve_loop w3 show ?thesis by (intro conjI)
qed




subsection \<open>The dashboard stencil\<close>

lemma startswith_iff: "startswith s p \<longleftrightarrow> (\<exists>t. s = p @ t)"
  unfolding startswith_def
  by (metis append_eq_conv_conj append_take_drop_id)

lemma keys_dict_pop: "k \<notin> fst ` set (dict_pop k d)"
  by (auto simp: dict_pop_def)

lemma map_of_dict_pop: "map_of (dict_pop k d) = (map_of d)(k := None)"
  unfolding dict_pop_def by (induction d) auto

text \<open>
  C9. \<open>make_resource\<close> of the dashboard stencil, when \<open>json.loads\<close> returns a dict \<open>d\<close>:
  the resource refers to a new object, which is \<open>d\<close> without the key \<open>id\<close> (all other
  members kept, in their order), and its \<open>folder\<close> is \<open>format_uid\<close> of the folder reference,
  prefixed with \<open>folder_\<close> only if it does not start with \<open>folder_\<close> already. It
  returns a resource in this case only. The references \<open>teamA\<close> and \<open>folder_teamA\<close>
  both give the folder uid \<open>gdbt_9123169fd2b4d254ad07d69e8e15e063\<close>, which is
  \<open>"gdbt_" + md5("folder_teamA")\<close>.
\<close>

theorem Dashboard_make_resource_folder:
  "(loads env model = Inr (JObj d) \<longrightarrow>
      Dashboard_make_resource env folder grafana uid model providers h
        = (Inr (Dashboard grafana (JStr uid) (length h)
                  (JStr (format_uid (if startswith folder ''folder_'' then folder
                                     else ''folder_'' @ folder)))),
           h @ [JObj (dict_pop ''id'' d)]))
   \<and> (Dashboard_make_resource env folder grafana uid model providers h = (Inr r, h') \<longrightarrow>
        (\<exists>d. loads env model = Inr (JObj d)
            \<and> res_model r = length h \<and> h' = h @ [JObj (dict_pop ''id'' d)]))
   \<and> ''id'' \<notin> fst ` set (dict_pop ''id'' d)
   \<and> map_of (dict_pop ''id'' d) = (map_of d)(''id'' := None)
   \<and> dict_pop ''id'' d = filter (\<lambda>(k, v). k \<noteq> ''id'') d
   \<and> (startswith folder ''folder_'' \<longleftrightarrow> (\<exists>t. folder = ''folder_'' @ t))
   \<and> (loads env model = Inr (JObj d) \<longrightarrow>
        Dashboard_make_resource env ''teamA'' grafana uid model providers h
          = (Inr (Dashboard grafana (JStr uid) (length h)
                    (JStr ''gdbt_9123169fd2b4d254ad07d69e8e15e063'')),
             h @ [JObj (dict_pop ''id'' d)])
      \<and> Dashboard_make_resource env ''folder_teamA'' grafana uid model providers h
          = (Inr (Dashboard grafana (JStr uid) (length h)
                    (JStr ''gdbt_9123169fd2b4d254ad07d69e8e15e063'')),
             h @ [JObj (dict_pop ''id'' d)]))"
proof -
  have eq: "\<And>folder. loads env model = Inr (JObj d) \<Longrightarrow>
      Dashboard_make_resource env folder grafana uid model providers h
        = (Inr (Dashboard grafana (JStr uid) (length h)
                  (JStr (format_uid (if startswith folder ''folder_'' then folder
                                     else ''folder_'' @ folder)))),
           h @ [JObj (dict_pop ''id'' d)])"
    by (simp add: Dashboard_make_resource_def alloc_def heap_pop_def deref_def Let_def)
  have c2: "Dashboard_make_resource env folder grafana uid model providers h = (Inr r, h') \<longrightarrow>
        (\<exists>d. loads env model = Inr (JObj d)
            \<and> res_model r = length h \<and> h' = h @ [JObj (dict_pop ''id'' d)])"
    by (auto simp: Dashboard_make_resource_def alloc_def heap_pop_def deref_def Let_def
          split: sum.splits json.splits)
  have c3: "''id'' \<notin> fst ` set (dict_pop ''id'' d)" by (rule keys_dict_pop)
  have c4: "map_of (dict_pop ''id'' d) = (map_of d)(''id'' := None)" by (rule map_of_dict_pop)
  have c5: "dict_pop ''id'' d = filter (\<lambda>(k, v). k \<noteq> ''id'') d" by (simp add: dict_pop_def)
  have c6: "startswith folder ''folder_'' \<longleftrightarrow> (\<exists>t. folder = ''folder_'' @ t)"
    by (rule startswith_iff)
  have s1: "\<not> startswith ''teamA'' ''folder_''" by (simp add: startswith_def)
  have s2: "startswith ''folder_teamA'' ''folder_''" by (simp add: startswith_def)
  have c7: "loads env model = Inr (JObj d) \<longrightarrow>
        Dashboard_make_resource env ''teamA'' grafana uid model providers h
          = (Inr (Dashboard grafana (JStr uid) (length h)
                    (JStr ''gdbt_9123169fd2b4d254ad07d69e8e15e063'')),
             h @ [JObj (dict_pop ''id'' d)])
      \<and> Dashboard_make_resource env ''folder_teamA'' grafana uid model providers h
          = (Inr (Dashboard grafana (JStr uid) (length h)
                    (JStr ''gdbt_9123169fd2b4d254ad07d69e8e15e063'')),
             h @ [JObj (dict_pop ''id'' d)])"
    using eq [of "''teamA''"] eq [of "''folder_teamA''"] s1 s2
    by (simp add: format_uid_folder_teamA)
  from eq [of folder] c2 c3 c4 c5 c6 c7 show ?thesis by blast
qed

theorem Dashboard_make_resource_folder_witness:
  "Dashboard_make_resource example_collaborators ''teamA'' ''p1'' ''u1''
       ''{\"id\":7,\"title\":\"CPU\"}'' () []
     = (Inr (Dashboard ''p1'' (JStr ''u1'') 0 (JStr ''gdbt_9123169fd2b4d254ad07d69e8e15e063'')),
        [JObj [(''title'', JStr ''CPU'')]])"
proof -
  have l: "loads example_collaborators ''{\"id\":7,\"title\":\"CPU\"}''
             = Inr (JObj [(''id'', JInt 7), (''title'', JStr ''CPU'')])"
    by (simp add: example_collaborators_def example_loads_def)
  have s1: "\<not> startswith ''teamA'' ''folder_''" by (simp add: startswith_def)
  from Dashboard_make_resource_folder [of example_collaborators "''{\"id\":7,\"title\":\"CPU\"}''"
      "[(''id'', JInt 7), (''title'', JStr ''CPU'')]" "''teamA''" "''p1''" "''u1''" "()" "[]"] l
  have "Dashboard_make_resource example_collaborators ''teamA'' ''p1'' ''u1''
       ''{\"id\":7,\"title\":\"CPU\"}'' () []
     = (Inr (Dashboard ''p1'' (JStr ''u1'') (length ([] :: heap))
                  (JStr (format_uid (if startswith ''teamA'' ''folder_'' then ''teamA''
                                     else ''folder_'' @ ''teamA'')))),
           [] @ [JObj (dict_pop ''id'' [(''id'', JInt 7), (''title'', JStr ''CPU'')])])"
    by blast
  then show ?thesis
    by (simp add: s1 dict_pop_def format_uid_folder_teamA)
qed

subsection \<open>Running the operations\<close>

lemma seq_ret: "seq (ret x) f = f x"
  by (rule ext) (simp add: seq_def ret_def)

lemma seq_throw: "seq (throw e) f = throw e"
  by (rule ext) (simp add: seq_def throw_def)

lemma seq_lift_Inr: "seq (lift (Inr x)) f = f x"
  by (rule ext) (simp add: seq_def lift_def)

lemma seq_lift_Inl: "seq (lift (Inl e)) f = throw e"
  by (rule ext) (simp add: seq_def lift_def throw_def)

lemma seq_Inr: "m w = (Inr x, w1) \<Longrightarrow> seq m f w = f x w1"
  by (simp add: seq_def)

lemma seq_Inl: "m w = (Inl e, w1) \<Longrightarrow> seq m f w = (Inl e, w1)"
  by (simp add: seq_def)

lemma try_except_Inr: "m w = (Inr x, w1) \<Longrightarrow> try_except m h w = (Inr x, w1)"
  by (simp add: try_except_def)

lemma try_except_Inl: "m w = (Inl e, w1) \<Longrightarrow> try_except m h w = h e w1"
  by (simp add: try_except_def)

lemma client_Some: "providers grafana = Some provider \<Longrightarrow> client grafana providers = ret provider"
  by (simp add: client_def)

lemma client_None: "providers grafana = None \<Longrightarrow> client grafana providers = throw (ProviderNotFound grafana)"
  by (simp add: client_def)

lemma invoke_Inr:
  "provider rq (remote w) = (Inr v, s)
   \<Longrightarrow> invoke provider rq w = (Inr v, w\<lparr>remote := s, calls := calls w @ [(rq, Inr v)]\<rparr>)"
  by (simp add: invoke_def)

lemma invoke_Inl:
  "provider rq (remote w) = (Inl exc, s)
   \<Longrightarrow> invoke provider rq w
       = (Inl (GrafanaException exc), w\<lparr>remote := s, calls := calls w @ [(rq, Inl exc)]\<rparr>)"
  by (simp add: invoke_def)

lemma obj_getitem_JObj:
  "model < length (store w) \<Longrightarrow> store w ! model = JObj d
   \<Longrightarrow> obj_getitem model k w
       = ((case map_of d k of None \<Rightarrow> Inl (KeyError k) | Some v \<Rightarrow> Inr v), w)"
  by (simp add: obj_getitem_def heap_getitem_def deref_def)

lemma getitem_Inl: "getitem v k = Inl e \<Longrightarrow> e = TypeError \<or> e = KeyError k"
  by (cases v) (auto split: option.splits)

subsection \<open>The folder lifecycle\<close>

lemma Folder_get_run:
  assumes "providers grafana = Some provider"
    and "provider (get_folder uid) (remote w) = (out, s)"
  shows "Folder_get grafana uid providers w =
          (case out of
             Inl exc \<Rightarrow>
               (Inl (GrafanaError (message exc)),
                w\<lparr>remote := s, calls := calls w @ [(get_folder uid, out)]\<rparr>)
           | Inr folder \<Rightarrow>
               (case getitem folder ''title'' of
                  Inl e \<Rightarrow> (Inl e, w\<lparr>remote := s, calls := calls w @ [(get_folder uid, out)]\<rparr>)
                | Inr title \<Rightarrow>
                    (Inr (Folder grafana uid (length (store w))),
                     w\<lparr>remote := s, calls := calls w @ [(get_folder uid, out)],
                       store := store w @ [JObj [(''title'', title)]]\<rparr>)))"
proof (cases out)
  case (Inl exc)
  with assms show ?thesis
    by (simp add: Folder_get_def client_Some seq_ret seq_def try_except_def invoke_def
          raise_GrafanaError_def throw_def)
next
  case (Inr folder)
  with assms show ?thesis
    by (cases "getitem folder ''title''")
       (auto simp: Folder_get_def client_Some seq_ret seq_def try_except_def invoke_def
          raise_GrafanaError_def throw_def lift_def new_def alloc_def ret_def
          split: error.splits dest: getitem_Inl)
qed

text \<open>
  C7. \<open>Folder.create\<close> on a body that is a dict. Without the key \<open>title\<close> it raises
  \<open>DataError\<close> and sends no request. With a title it sends \<open>create_folder(title, uid)\<close>:
  if the service answers, or raises an exception with status 412 (precondition
  failed: the uid exists already), \<open>create\<close> continues with \<open>Folder.get\<close> and its result
  is the result of this \<open>get\<close>; if the service raises any other exception, \<open>create\<close>
  raises \<open>GrafanaError\<close> with its message and does not read. \<open>Folder.get\<close> sends
  \<open>get_folder(uid)\<close>; a failure is a \<open>GrafanaError\<close>, and from an answer it returns the
  folder whose model is a new dict holding the title that the service reported.
\<close>

theorem Folder_create_outcomes:
  assumes "model < length (store w)" and "store w ! model = JObj d"
  shows
   "(map_of d ''title'' = None \<longrightarrow>
       Folder_create grafana uid model providers w
         = (Inl (DataError ''Folder model missing 'title' key''), w))
  \<and> (\<forall>title provider out s.
       map_of d ''title'' = Some title \<and> providers grafana = Some provider
       \<and> provider (create_folder title uid) (remote w) = (out, s) \<longrightarrow>
         Folder_create grafana uid model providers w =
           (case out of
              Inl exc \<Rightarrow>
                if status_code exc = 412
                then Folder_get grafana uid providers
                       (w\<lparr>remote := s, calls := calls w @ [(create_folder title uid, out)]\<rparr>)
                else (Inl (GrafanaError (message exc)),
                      w\<lparr>remote := s, calls := calls w @ [(create_folder title uid, out)]\<rparr>)
            | Inr v \<Rightarrow>
                Folder_get grafana uid providers
                  (w\<lparr>remote := s, calls := calls w @ [(create_folder title uid, out)]\<rparr>)))
  \<and> (\<forall>w provider out s.
       providers grafana = Some provider \<and> provider (get_folder uid) (remote w) = (out, s) \<longrightarrow>
         Folder_get grafana uid providers w =
          (case out of
             Inl exc \<Rightarrow>
               (Inl (GrafanaError (message exc)),
                w\<lparr>remote := s, calls := calls w @ [(get_folder uid, out)]\<rparr>)
           | Inr folder \<Rightarrow>
               (case getitem folder ''title'' of
                  Inl e \<Rightarrow> (Inl e, w\<lparr>remote := s, calls := calls w @ [(get_folder uid, out)]\<rparr>)
                | Inr title \<Rightarrow>
                    (Inr (Folder grafana uid (length (store w))),
                     w\<lparr>remote := s, calls := calls w @ [(get_folder uid, out)],
                       store := store w @ [JObj [(''title'', title)]]\<rparr>))))"
proof (intro conjI allI impI)
  assume "map_of d ''title'' = None"
  with assms show "Folder_create grafana uid model providers w
         = (Inl (DataError ''Folder model missing 'title' key''), w)"
    by (simp add: Folder_create_def seq_def try_except_def obj_getitem_JObj throw_def)
next
  fix title provider out s
  assume a: "map_of d ''title'' = Some title \<and> providers grafana = Some provider
       \<and> provider (create_folder title uid) (remote w) = (out, s)"
  show "Folder_create grafana uid model providers w =
           (case out of
              Inl exc \<Rightarrow>
                if status_code exc = 412
                then Folder_get grafana uid providers
                       (w\<lparr>remote := s, calls := calls w @ [(create_folder title uid, out)]\<rparr>)
                else (Inl (GrafanaError (message exc)),
                      w\<lparr>remote := s, calls := calls w @ [(create_folder title uid, out)]\<rparr>)
            | Inr v \<Rightarrow>
                Folder_get grafana uid providers
                  (w\<lparr>remote := s, calls := calls w @ [(create_folder title uid, out)]\<rparr>))"
  proof (cases out)
    case (Inl exc)
    with a assms show ?thesis
      by (simp add: Folder_create_def seq_def try_except_def obj_getitem_JObj throw_def
            client_Some ret_def invoke_def)
  next
    case (Inr v)
    with a assms show ?thesis
      by (simp add: Folder_create_def seq_def try_except_def obj_getitem_JObj throw_def
            client_Some ret_def invoke_def)
  qed
next
  fix w :: "'a world" and provider out s
  assume "providers grafana = Some provider \<and> provider (get_folder uid) (remote w) = (out, s)"
  then show "Folder_get grafana uid providers w =
          (case out of
             Inl exc \<Rightarrow>
               (Inl (GrafanaError (message exc)),
                w\<lparr>remote := s, calls := calls w @ [(get_folder uid, out)]\<rparr>)
           | Inr folder \<Rightarrow>
               (case getitem folder ''title'' of
                  Inl e \<Rightarrow> (Inl e, w\<lparr>remote := s, calls := calls w @ [(get_folder uid, out)]\<rparr>)
                | Inr title \<Rightarrow>
                    (Inr (Folder grafana uid (length (store w))),
                     w\<lparr>remote := s, calls := calls w @ [(get_folder uid, out)],
                       store := store w @ [JObj [(''title'', title)]]\<rparr>)))"
    using Folder_get_run [of providers grafana provider uid w out s] by blast
qed

theorem Folder_create_outcomes_witness:
  "Folder_create ''p1'' (JStr ''f1'') 1 example_providers example_world
     = (Inl (DataError ''Folder model missing 'title' key''), example_world)
   \<and> Folder_create ''p1'' (JStr ''f1'') 0 example_providers example_world
     = (Inr (Folder ''p1'' (JStr ''f1'') 2),
        example_world
          \<lparr>store := store example_world @ [JObj [(''title'', JStr ''Team A'')]],
           calls := [(create_folder (JStr ''CPU'') (JStr ''f1''), Inl precondition_failed),
                     (get_folder (JStr ''f1''), Inr example_folder)]\<rparr>)"
proof -
  have m1: "1 < length (store example_world)"
    and d1: "store example_world ! 1 = JObj [(''name'', JStr ''x'')]"
    and m0: "0 < length (store example_world)"
    and d0: "store example_world ! 0 = JObj [(''title'', JStr ''CPU''), (''uid'', JStr ''old'')]"
    by (simp_all add: example_world_def)
  have p: "example_providers ''p1'' = Some example_provider"
    by (simp add: example_providers_def)
  from Folder_create_outcomes [OF m1 d1, of "''p1''" "JStr ''f1''" example_providers]
  have w1: "Folder_create ''p1'' (JStr ''f1'') 1 example_providers example_world
     = (Inl (DataError ''Folder model missing 'title' key''), example_world)"
    by simp
  let ?w1 = "example_world\<lparr>remote := remote example_world,
      calls := calls example_world @ [(create_folder (JStr ''CPU'') (JStr ''f1''), Inl precondition_failed)]\<rparr>"
  have c: "example_provider (create_folder (JStr ''CPU'') (JStr ''f1'')) (remote example_world)
             = (Inl precondition_failed, remote example_world)"
    by simp
  have g: "example_provider (get_folder (JStr ''f1'')) (remote ?w1)
             = (Inr example_folder, remote example_world)"
    by simp
  note t = Folder_create_outcomes [OF m0 d0, of "''p1''" "JStr ''f1''" example_providers]
  from t have "Folder_create ''p1'' (JStr ''f1'') 0 example_providers example_world
                 = Folder_get ''p1'' (JStr ''f1'') example_providers ?w1"
    using p c by (simp add: precondition_failed_def)
  moreover from t have "Folder_get ''p1'' (JStr ''f1'') example_providers ?w1
     = (Inr (Folder ''p1'' (JStr ''f1'') 2),
        example_world
          \<lparr>store := store example_world @ [JObj [(''title'', JStr ''Team A'')]],
           calls := [(create_folder (JStr ''CPU'') (JStr ''f1''), Inl precondition_failed),
                     (get_folder (JStr ''f1''), Inr example_folder)]\<rparr>)"
    using p g by (simp add: example_folder_def example_world_def)
  ultimately show ?thesis using w1 by simp
qed

subsection \<open>Reading a dashboard\<close>

lemma seq_Inr_D:
  "seq m f w = (Inr y, w') \<Longrightarrow> \<exists>x w1. m w = (Inr x, w1) \<and> f x w1 = (Inr y, w')"
  by (auto simp: seq_def split: prod.splits sum.splits)

lemma try_raise_GrafanaError_Inr_D:
  "try_except m raise_GrafanaError w = (Inr x, w') \<Longrightarrow> m w = (Inr x, w')"
  by (auto simp: try_except_def raise_GrafanaError_def throw_def
        split: prod.splits sum.splits error.splits)

lemma client_Inr_D:
  "client grafana providers w = (Inr provider, w') \<Longrightarrow> providers grafana = Some provider \<and> w' = w"
  by (auto simp: client_def throw_def ret_def split: option.splits)

lemma invoke_Inr_D:
  "invoke provider rq w = (Inr v, w')
   \<Longrightarrow> \<exists>s. provider rq (remote w) = (Inr v, s)
          \<and> w' = w\<lparr>remote := s, calls := calls w @ [(rq, Inr v)]\<rparr>"
  by (auto simp: invoke_def split: prod.splits sum.splits)

lemma lift_Inr_D: "lift r w = (Inr x, w') \<Longrightarrow> r = Inr x \<and> w' = w"
  by (simp add: lift_def)

lemma new_run: "new v w = (Inr (length (store w)), w\<lparr>store := store w @ [v]\<rparr>)"
  by (simp add: new_def alloc_def)

lemma ret_run: "ret x w = (Inr x, w)"
  by (simp add: ret_def)

lemma request_Inr_D:
  assumes "try_except (seq (client grafana providers) (\<lambda>provider. invoke provider rq))
             raise_GrafanaError w = (Inr v, w')"
  shows "\<exists>provider s. providers grafana = Some provider
           \<and> provider rq (remote w) = (Inr v, s)
           \<and> w' = w\<lparr>remote := s, calls := calls w @ [(rq, Inr v)]\<rparr>"
proof -
  from try_raise_GrafanaError_Inr_D [OF assms]
  have "seq (client grafana providers) (\<lambda>provider. invoke provider rq) w = (Inr v, w')" .
  from seq_Inr_D [OF this] obtain provider w1 where
    c: "client grafana providers w = (Inr provider, w1)" and i: "invoke provider rq w1 = (Inr v, w')"
    by blast
  from client_Inr_D [OF c] have p: "providers grafana = Some provider" and w1: "w1 = w"
    by simp_all
  from invoke_Inr_D [OF i] w1 p show ?thesis by blast
qed

lemma request_run:
  assumes "providers grafana = Some provider" and "provider rq (remote w) = (out, s)"
  shows "try_except (seq (client grafana providers) (\<lambda>provider. invoke provider rq))
             raise_GrafanaError w
           = ((case out of Inl exc \<Rightarrow> Inl (GrafanaError (message exc)) | Inr v \<Rightarrow> Inr v),
              w\<lparr>remote := s, calls := calls w @ [(rq, out)]\<rparr>)"
  using assms
  by (cases out)
     (simp_all add: client_def seq_def ret_def try_except_def invoke_def raise_GrafanaError_def
        throw_def)

lemma Folder_get_by_id_run:
  assumes "providers grafana = Some provider"
    and "provider (get_folder_by_id fid) (remote w) = (Inr data, s)"
    and "getitem data ''title'' = Inr title" and "getitem data ''uid'' = Inr fu"
  shows "Folder_get_by_id grafana fid providers w
           = (Inr (Folder grafana fu (length (store w))),
              w\<lparr>remote := s, calls := calls w @ [(get_folder_by_id fid, Inr data)],
                store := store w @ [JObj [(''title'', title)]]\<rparr>)"
  using assms
  by (simp add: Folder_get_by_id_def seq_def request_run lift_def new_def alloc_def ret_def)

lemma Folder_get_by_id_Inr_D:
  assumes "Folder_get_by_id grafana fid providers w = (Inr r, w')"
  shows "\<exists>provider data s title fu.
           providers grafana = Some provider
         \<and> provider (get_folder_by_id fid) (remote w) = (Inr data, s)
         \<and> getitem data ''title'' = Inr title \<and> getitem data ''uid'' = Inr fu"
proof -
  from seq_Inr_D [OF assms [unfolded Folder_get_by_id_def]] obtain data w1 where
      rq: "try_except (seq (client grafana providers)
             (\<lambda>provider. invoke provider (get_folder_by_id fid))) raise_GrafanaError w
             = (Inr data, w1)"
    and k1: "seq (lift (getitem data ''title'')) (\<lambda>title.
             seq (new (JObj [(''title'', title)])) (\<lambda>model.
             seq (lift (getitem data ''uid'')) (\<lambda>uid. ret (Folder grafana uid model)))) w1
             = (Inr r, w')"
    by blast
  from seq_Inr_D [OF k1] obtain title w2 where
      t: "lift (getitem data ''title'') w1 = (Inr title, w2)"
    and k2: "seq (new (JObj [(''title'', title)])) (\<lambda>model.
             seq (lift (getitem data ''uid'')) (\<lambda>uid. ret (Folder grafana uid model))) w2
             = (Inr r, w')"
    by blast
  from seq_Inr_D [OF k2] obtain model w3 where
    k3: "seq (lift (getitem data ''uid'')) (\<lambda>uid. ret (Folder grafana uid model)) w3 = (Inr r, w')"
    by blast
  from seq_Inr_D [OF k3] obtain fu w4 where
    u: "lift (getitem data ''uid'') w3 = (Inr fu, w4)"
    by blast
  from request_Inr_D [OF rq] lift_Inr_D [OF t] lift_Inr_D [OF u] show ?thesis by blast
qed

lemma pop_keys_run:
  "a < length (store w) \<Longrightarrow> store w ! a = JObj d
   \<Longrightarrow> pop_keys keys a w
       = (Inr (), w\<lparr>store := (store w)[a := JObj (filter (\<lambda>(k, v). k \<notin> set keys) d)]\<rparr>)"
proof (induction keys arbitrary: w d)
  case Nil
  then show ?case by (simp add: ret_def list_update_same_conv [THEN iffD2])
next
  case (Cons key keys)
  let ?w1 = "w\<lparr>store := (store w)[a := JObj (dict_pop key d)]\<rparr>"
  from Cons.prems have p: "obj_pop key a w = (Inr (), ?w1)"
    by (simp add: obj_pop_def heap_pop_def deref_def)
  have l: "a < length (store ?w1)" and c: "store ?w1 ! a = JObj (dict_pop key d)"
    using Cons.prems by simp_all
  have f: "filter (\<lambda>(k, v). k \<notin> set keys) (dict_pop key d)
             = filter (\<lambda>(k, v). k \<notin> set (key # keys)) d"
    by (auto simp: dict_pop_def intro: filter_cong)
  show ?case
    using Cons.IH [OF l c] p by (simp add: seq_def f)
qed

lemma obj_pop_Inr_D:
  "obj_pop k a w = (Inr u, w') \<Longrightarrow> a < length (store w) \<Longrightarrow> \<exists>d. store w ! a = JObj d"
  by (auto simp: obj_pop_def heap_pop_def deref_def split: json.splits if_splits)

lemma Dashboard_get_run:
  assumes p: "providers grafana = Some provider"
    and g: "provider (get_dashboard uid) (remote w) = (Inr dashboard, s1)"
    and b: "getitem dashboard ''dashboard'' = Inr (JObj d)"
    and m: "getitem dashboard ''meta'' = Inr meta"
    and f: "getitem meta ''folderId'' = Inr fid"
    and r: "provider (get_folder_by_id fid) s1 = (Inr data, s2)"
    and t: "getitem data ''title'' = Inr title" and u: "getitem data ''uid'' = Inr fu"
  shows "Dashboard_get grafana uid providers w
           = (Inr (Dashboard grafana uid (length (store w)) fu),
              w\<lparr>remote := s2,
                calls := calls w @ [(get_dashboard uid, Inr dashboard),
                                    (get_folder_by_id fid, Inr data)],
                store := store w @ [JObj (filter (\<lambda>(k, v). k \<notin> set IGNORED_KEYS) d),
                                    JObj [(''title'', title)]]\<rparr>)"
  using assms
  by (simp add: Dashboard_get_def Folder_get_by_id_def seq_def request_run lift_def new_def
        alloc_def ret_def pop_keys_run nth_append list_update_append)

lemma pop_keys_Inr_D:
  "pop_keys (key # keys) a w = (Inr u, w') \<Longrightarrow> a < length (store w) \<Longrightarrow> \<exists>d. store w ! a = JObj d"
  by (auto simp: seq_def obj_pop_def heap_pop_def deref_def split: json.splits prod.splits sum.splits)

lemma Dashboard_get_Inr_D:
  assumes "Dashboard_get grafana uid providers w = (Inr r, w')"
  shows "\<exists>provider dashboard s1 d meta fid data s2 title fu.
           providers grafana = Some provider
         \<and> provider (get_dashboard uid) (remote w) = (Inr dashboard, s1)
         \<and> getitem dashboard ''dashboard'' = Inr (JObj d)
         \<and> getitem dashboard ''meta'' = Inr meta
         \<and> getitem meta ''folderId'' = Inr fid
         \<and> provider (get_folder_by_id fid) s1 = (Inr data, s2)
         \<and> getitem data ''title'' = Inr title \<and> getitem data ''uid'' = Inr fu"
proof -
  from seq_Inr_D [OF assms [unfolded Dashboard_get_def]] obtain dashboard w1 where
      rq: "try_except (seq (client grafana providers)
             (\<lambda>provider. invoke provider (get_dashboard uid))) raise_GrafanaError w
             = (Inr dashboard, w1)"
    and k1: "seq (lift (getitem dashboard ''dashboard'')) (\<lambda>body.
             seq (new body) (\<lambda>model.
             seq (lift (getitem dashboard ''meta'')) (\<lambda>meta.
             seq (lift (getitem meta ''folderId'')) (\<lambda>folderId.
             seq (Folder_get_by_id grafana folderId providers) (\<lambda>folder.
             seq (pop_keys IGNORED_KEYS model) (\<lambda>_.
             ret (Dashboard grafana uid model (res_uid folder)))))))) w1 = (Inr r, w')"
    by blast
  from request_Inr_D [OF rq] obtain provider s1 where
      p: "providers grafana = Some provider"
    and g: "provider (get_dashboard uid) (remote w) = (Inr dashboard, s1)"
    and w1: "w1 = w\<lparr>remote := s1, calls := calls w @ [(get_dashboard uid, Inr dashboard)]\<rparr>"
    by blast
  from seq_Inr_D [OF k1] obtain body w2 where
      b: "lift (getitem dashboard ''dashboard'') w1 = (Inr body, w2)"
    and k2: "seq (new body) (\<lambda>model.
             seq (lift (getitem dashboard ''meta'')) (\<lambda>meta.
             seq (lift (getitem meta ''folderId'')) (\<lambda>folderId.
             seq (Folder_get_by_id grafana folderId providers) (\<lambda>folder.
             seq (pop_keys IGNORED_KEYS model) (\<lambda>_.
             ret (Dashboard grafana uid model (res_uid folder))))))) w2 = (Inr r, w')"
    by blast
  from lift_Inr_D [OF b] have b': "getitem dashboard ''dashboard'' = Inr body" and w2: "w2 = w1"
    by simp_all
  from seq_Inr_D [OF k2] obtain model w3 where
      n: "new body w2 = (Inr model, w3)"
    and k3: "seq (lift (getitem dashboard ''meta'')) (\<lambda>meta.
             seq (lift (getitem meta ''folderId'')) (\<lambda>folderId.
             seq (Folder_get_by_id grafana folderId providers) (\<lambda>folder.
             seq (pop_keys IGNORED_KEYS model) (\<lambda>_.
             ret (Dashboard grafana uid model (res_uid folder)))))) w3 = (Inr r, w')"
    by blast
  from n have model: "model = length (store w2)" and w3: "w3 = w2\<lparr>store := store w2 @ [body]\<rparr>"
    by (simp_all add: new_run)
  from seq_Inr_D [OF k3] obtain meta w4 where
      m: "lift (getitem dashboard ''meta'') w3 = (Inr meta, w4)"
    and k4: "seq (lift (getitem meta ''folderId'')) (\<lambda>folderId.
             seq (Folder_get_by_id grafana folderId providers) (\<lambda>folder.
             seq (pop_keys IGNORED_KEYS model) (\<lambda>_.
             ret (Dashboard grafana uid model (res_uid folder))))) w4 = (Inr r, w')"
    by blast
  from lift_Inr_D [OF m] have m': "getitem dashboard ''meta'' = Inr meta" and w4: "w4 = w3"
    by simp_all
  from seq_Inr_D [OF k4] obtain fid w5 where
      f: "lift (getitem meta ''folderId'') w4 = (Inr fid, w5)"
    and k5: "seq (Folder_get_by_id grafana fid providers) (\<lambda>folder.
             seq (pop_keys IGNORED_KEYS model) (\<lambda>_.
             ret (Dashboard grafana uid model (res_uid folder)))) w5 = (Inr r, w')"
    by blast
  from lift_Inr_D [OF f] have f': "getitem meta ''folderId'' = Inr fid" and w5: "w5 = w4"
    by simp_all
  from seq_Inr_D [OF k5] obtain folder w6 where
      fg: "Folder_get_by_id grafana fid providers w5 = (Inr folder, w6)"
    and k6: "seq (pop_keys IGNORED_KEYS model) (\<lambda>_.
             ret (Dashboard grafana uid model (res_uid folder))) w6 = (Inr r, w')"
    by blast
  from Folder_get_by_id_Inr_D [OF fg] obtain provider' data s2 title fu where
      p': "providers grafana = Some provider'"
    and r': "provider' (get_folder_by_id fid) (remote w5) = (Inr data, s2)"
    and t: "getitem data ''title'' = Inr title" and u: "getitem data ''uid'' = Inr fu"
    by blast
  from p p' have pp: "provider' = provider" by simp
  have rem: "remote w5 = s1" by (simp add: w5 w4 w3 w2 w1)
  from r' pp rem have r: "provider (get_folder_by_id fid) s1 = (Inr data, s2)" by simp
  have w6: "w6 = w5\<lparr>remote := s2, calls := calls w5 @ [(get_folder_by_id fid, Inr data)],
                store := store w5 @ [JObj [(''title'', title)]]\<rparr>"
    using Folder_get_by_id_run [of providers grafana provider' fid w5 data s2 title fu] p' r' t u fg
    by simp
  from seq_Inr_D [OF k6] obtain x w7 where
    pk: "pop_keys IGNORED_KEYS model w6 = (Inr x, w7)" by blast
  have l: "model < length (store w6)" and c: "store w6 ! model = body"
    by (simp_all add: w6 w5 w4 w3 model nth_append)
  from pk have "pop_keys (''id'' # [''uid'', ''version'']) model w6 = (Inr x, w7)"
    by (simp only: IGNORED_KEYS_def)
  from pop_keys_Inr_D [OF this l] c obtain d where "body = JObj d" by auto
  with p g b' m' f' r t u show ?thesis by blast
qed

lemma filter_IGNORED_KEYS:
  "filter (\<lambda>(k, v). k \<notin> set IGNORED_KEYS) d
     = dict_pop ''version'' (dict_pop ''uid'' (dict_pop ''id'' d))"
  by (induction d) (auto simp: IGNORED_KEYS_def dict_pop_def)

lemma map_of_filter_keys:
  "map_of (filter (\<lambda>(k, v). k \<notin> K) d) k = (if k \<in> K then None else map_of d k)"
  by (induction d) auto

lemma Dashboard_serialize_run:
  "res_model r < length (store w) \<Longrightarrow>
   Dashboard_serialize r providers w
     = (Inr (JObj [(''kind'', JStr ''dashboard''), (''grafana'', JStr (res_grafana r)),
                   (''uid'', res_uid r), (''model'', store w ! res_model r),
                   (''folder'', res_folder r)]), w)"
  by (simp add: Dashboard_serialize_def seq_def load_def deref_def ret_def)

text \<open>
  C5. When \<open>Dashboard.get\<close> returns a resource: the service has answered
  \<open>get_dashboard(uid)\<close> with a response whose member \<open>dashboard\<close> is a dict \<open>d\<close>, and
  \<open>get_folder_by_id\<close> of the response's \<open>meta.folderId\<close> with a folder record; the model
  of the resource is a new object holding \<open>d\<close> without its keys \<open>id\<close>, \<open>uid\<close> and
  \<open>version\<close> (the other members of \<open>d\<close> are kept as they are, in their order), and the
  \<open>folder\<close> of the resource is the \<open>uid\<close> of that folder record, not the numeric
  \<open>folderId\<close>. \<open>serialize\<close> of the resource then shows this model, whose keys do not
  include \<open>id\<close>, \<open>uid\<close> or \<open>version\<close>. Conversely \<open>get\<close> returns this resource whenever the
  two requests are answered in this form.
\<close>

theorem Dashboard_get_strips_volatile_keys:
  "(Dashboard_get grafana uid providers w = (Inr r, w') \<longrightarrow>
     (\<exists>provider dashboard s1 d meta fid data s2 title fu.
         providers grafana = Some provider
       \<and> provider (get_dashboard uid) (remote w) = (Inr dashboard, s1)
       \<and> getitem dashboard ''dashboard'' = Inr (JObj d)
       \<and> getitem dashboard ''meta'' = Inr meta
       \<and> getitem meta ''folderId'' = Inr fid
       \<and> provider (get_folder_by_id fid) s1 = (Inr data, s2)
       \<and> getitem data ''title'' = Inr title
       \<and> getitem data ''uid'' = Inr fu
       \<and> r = Dashboard grafana uid (length (store w)) fu
       \<and> w' = w\<lparr>remote := s2,
                 calls := calls w @ [(get_dashboard uid, Inr dashboard),
                                     (get_folder_by_id fid, Inr data)],
                 store := store w @ [JObj (filter (\<lambda>(k, v). k \<notin> {''id'', ''uid'', ''version''}) d),
                                     JObj [(''title'', title)]]\<rparr>
       \<and> Dashboard_serialize r providers w'
           = (Inr (JObj [(''kind'', JStr ''dashboard''), (''grafana'', JStr grafana),
                         (''uid'', uid),
                         (''model'', JObj (filter (\<lambda>(k, v). k \<notin> {''id'', ''uid'', ''version''}) d)),
                         (''folder'', fu)]), w')))
   \<and> (\<forall>provider dashboard s1 d meta fid data s2 title fu.
         providers grafana = Some provider
       \<and> provider (get_dashboard uid) (remote w) = (Inr dashboard, s1)
       \<and> getitem dashboard ''dashboard'' = Inr (JObj d)
       \<and> getitem dashboard ''meta'' = Inr meta
       \<and> getitem meta ''folderId'' = Inr fid
       \<and> provider (get_folder_by_id fid) s1 = (Inr data, s2)
       \<and> getitem data ''title'' = Inr title
       \<and> getitem data ''uid'' = Inr fu \<longrightarrow>
         Dashboard_get grafana uid providers w
           = (Inr (Dashboard grafana uid (length (store w)) fu),
              w\<lparr>remote := s2,
                calls := calls w @ [(get_dashboard uid, Inr dashboard),
                                    (get_folder_by_id fid, Inr data)],
                store := store w @ [JObj (filter (\<lambda>(k, v). k \<notin> {''id'', ''uid'', ''version''}) d),
                                    JObj [(''title'', title)]]\<rparr>))
   \<and> IGNORED_KEYS = [''id'', ''uid'', ''version'']
   \<and> map_of (filter (\<lambda>(k, v). k \<notin> {''id'', ''uid'', ''version''}) d) k
        = (if k \<in> {''id'', ''uid'', ''version''} then None else map_of d k)
   \<and> ''id'' \<notin> fst ` set (filter (\<lambda>(k, v). k \<notin> {''id'', ''uid'', ''version''}) d)
   \<and> ''uid'' \<notin> fst ` set (filter (\<lambda>(k, v). k \<notin> {''id'', ''uid'', ''version''}) d)
   \<and> ''version'' \<notin> fst ` set (filter (\<lambda>(k, v). k \<notin> {''id'', ''uid'', ''version''}) d)"
proof -
  have K: "set IGNORED_KEYS = {''id'', ''uid'', ''version''}"
    by (simp add: IGNORED_KEYS_def)
  have run: "\<And>provider dashboard s1 d meta fid data s2 title fu.
         providers grafana = Some provider
       \<and> provider (get_dashboard uid) (remote w) = (Inr dashboard, s1)
       \<and> getitem dashboard ''dashboard'' = Inr (JObj d)
       \<and> getitem dashboard ''meta'' = Inr meta
       \<and> getitem meta ''folderId'' = Inr fid
       \<and> provider (get_folder_by_id fid) s1 = (Inr data, s2)
       \<and> getitem data ''title'' = Inr title
       \<and> getitem data ''uid'' = Inr fu \<Longrightarrow>
         Dashboard_get grafana uid providers w
           = (Inr (Dashboard grafana uid (length (store w)) fu),
              w\<lparr>remote := s2,
                calls := calls w @ [(get_dashboard uid, Inr dashboard),
                                    (get_folder_by_id fid, Inr data)],
                store := store w @ [JObj (filter (\<lambda>(k, v). k \<notin> {''id'', ''uid'', ''version''}) d),
                                    JObj [(''title'', title)]]\<rparr>)"
  proof -
    fix provider dashboard s1 d meta fid data s2 title fu
    assume a: "providers grafana = Some provider
       \<and> provider (get_dashboard uid) (remote w) = (Inr dashboard, s1)
       \<and> getitem dashboard ''dashboard'' = Inr (JObj d)
       \<and> getitem dashboard ''meta'' = Inr meta
       \<and> getitem meta ''folderId'' = Inr fid
       \<and> provider (get_folder_by_id fid) s1 = (Inr data, s2)
       \<and> getitem data ''title'' = Inr title
       \<and> getitem data ''uid'' = Inr fu"
    then show "Dashboard_get grafana uid providers w
           = (Inr (Dashboard grafana uid (length (store w)) fu),
              w\<lparr>remote := s2,
                calls := calls w @ [(get_dashboard uid, Inr dashboard),
                                    (get_folder_by_id fid, Inr data)],
                store := store w @ [JObj (filter (\<lambda>(k, v). k \<notin> {''id'', ''uid'', ''version''}) d),
                                    JObj [(''title'', title)]]\<rparr>)"
      using Dashboard_get_run [of providers grafana provider uid w dashboard s1 d meta fid data s2
          title fu]
      by (simp only: K)
  qed
  have c1: "Dashboard_get grafana uid providers w = (Inr r, w') \<longrightarrow>
     (\<exists>provider dashboard s1 d meta fid data s2 title fu.
         providers grafana = Some provider
       \<and> provider (get_dashboard uid) (remote w) = (Inr dashboard, s1)
       \<and> getitem dashboard ''dashboard'' = Inr (JObj d)
       \<and> getitem dashboard ''meta'' = Inr meta
       \<and> getitem meta ''folderId'' = Inr fid
       \<and> provider (get_folder_by_id fid) s1 = (Inr data, s2)
       \<and> getitem data ''title'' = Inr title
       \<and> getitem data ''uid'' = Inr fu
       \<and> r = Dashboard grafana uid (length (store w)) fu
       \<and> w' = w\<lparr>remote := s2,
                 calls := calls w @ [(get_dashboard uid, Inr dashboard),
                                     (get_folder_by_id fid, Inr data)],
                 store := store w @ [JObj (filter (\<lambda>(k, v). k \<notin> {''id'', ''uid'', ''version''}) d),
                                     JObj [(''title'', title)]]\<rparr>
       \<and> Dashboard_serialize r providers w'
           = (Inr (JObj [(''kind'', JStr ''dashboard''), (''grafana'', JStr grafana),
                         (''uid'', uid),
                         (''model'', JObj (filter (\<lambda>(k, v). k \<notin> {''id'', ''uid'', ''version''}) d)),
                         (''folder'', fu)]), w'))"
  proof
    assume g: "Dashboard_get grafana uid providers w = (Inr r, w')"
    from Dashboard_get_Inr_D [OF g] obtain provider dashboard s1 d meta fid data s2 title fu where
      a: "providers grafana = Some provider
       \<and> provider (get_dashboard uid) (remote w) = (Inr dashboard, s1)
       \<and> getitem dashboard ''dashboard'' = Inr (JObj d)
       \<and> getitem dashboard ''meta'' = Inr meta
       \<and> getitem meta ''folderId'' = Inr fid
       \<and> provider (get_folder_by_id fid) s1 = (Inr data, s2)
       \<and> getitem data ''title'' = Inr title
       \<and> getitem data ''uid'' = Inr fu"
      by blast
    let ?w' = "w\<lparr>remote := s2,
                 calls := calls w @ [(get_dashboard uid, Inr dashboard),
                                     (get_folder_by_id fid, Inr data)],
                 store := store w @ [JObj (filter (\<lambda>(k, v). k \<notin> {''id'', ''uid'', ''version''}) d),
                                     JObj [(''title'', title)]]\<rparr>"
    from run [OF a] g have r: "r = Dashboard grafana uid (length (store w)) fu" and w': "w' = ?w'"
      by simp_all
    have "res_model r < length (store w')" by (simp add: r w')
    from Dashboard_serialize_run [OF this, of providers]
    have s: "Dashboard_serialize r providers w'
           = (Inr (JObj [(''kind'', JStr ''dashboard''), (''grafana'', JStr grafana),
                         (''uid'', uid),
                         (''model'', JObj (filter (\<lambda>(k, v). k \<notin> {''id'', ''uid'', ''version''}) d)),
                         (''folder'', fu)]), w')"
      by (simp add: r w' nth_append)
    from a r w' s show "\<exists>provider dashboard s1 d meta fid data s2 title fu.
         providers grafana = Some provider
       \<and> provider (get_dashboard uid) (remote w) = (Inr dashboard, s1)
       \<and> getitem dashboard ''dashboard'' = Inr (JObj d)
       \<and> getitem dashboard ''meta'' = Inr meta
       \<and> getitem meta ''folderId'' = Inr fid
       \<and> provider (get_folder_by_id fid) s1 = (Inr data, s2)
       \<and> getitem data ''title'' = Inr title
       \<and> getitem data ''uid'' = Inr fu
       \<and> r = Dashboard grafana uid (length (store w)) fu
       \<and> w' = w\<lparr>remote := s2,
                 calls := calls w @ [(get_dashboard uid, Inr dashboard),
                                     (get_folder_by_id fid, Inr data)],
                 store := store w @ [JObj (filter (\<lambda>(k, v). k \<notin> {''id'', ''uid'', ''version''}) d),
                                     JObj [(''title'', title)]]\<rparr>
       \<and> Dashboard_serialize r providers w'
           = (Inr (JObj [(''kind'', JStr ''dashboard''), (''grafana'', JStr grafana),
                         (''uid'', uid),
                         (''model'', JObj (filter (\<lambda>(k, v). k \<notin> {''id'', ''uid'', ''version''}) d)),
                         (''folder'', fu)]), w')"
      by blast
  qed
  have c3: "IGNORED_KEYS = [''id'', ''uid'', ''version'']" by (rule IGNORED_KEYS_def)
  have c4: "map_of (filter (\<lambda>(k, v). k \<notin> {''id'', ''uid'', ''version''}) d) k
        = (if k \<in> {''id'', ''uid'', ''version''} then None else map_of d k)"
    by (rule map_of_filter_keys)
  have c5: "''id'' \<notin> fst ` set (filter (\<lambda>(k, v). k \<notin> {''id'', ''uid'', ''version''}) d)"
    and c6: "''uid'' \<notin> fst ` set (filter (\<lambda>(k, v). k \<notin> {''id'', ''uid'', ''version''}) d)"
    and c7: "''version'' \<notin> fst ` set (filter (\<lambda>(k, v). k \<notin> {''id'', ''uid'', ''version''}) d)"
    by auto
  from c1 run c3 c4 c5 c6 c7 show ?thesis by blast
qed

theorem Dashboard_get_strips_volatile_keys_witness:
  "Dashboard_get ''p1'' (JStr ''d1'') example_providers example_world
     = (Inr (Dashboard ''p1'' (JStr ''d1'') 2 (JStr ''f1'')),
        example_world
          \<lparr>store := store example_world
                      @ [JObj [(''title'', JStr ''CPU'')], JObj [(''title'', JStr ''Team A'')]],
           calls := [(get_dashboard (JStr ''d1''),
                      Inr (JObj [(''dashboard'',
                                  JObj [(''id'', JInt 7), (''uid'', JStr ''d1''),
                                        (''version'', JInt 3), (''title'', JStr ''CPU'')]),
                                 (''meta'', JObj [(''folderId'', JInt 5)])])),
                     (get_folder_by_id (JInt 5), Inr example_folder)]\<rparr>)"
proof -
  let ?body = "[(''id'', JInt 7), (''uid'', JStr ''d1''), (''version'', JInt 3),
                (''title'', JStr ''CPU'')]"
  let ?dashboard = "JObj [(''dashboard'', JObj ?body), (''meta'', JObj [(''folderId'', JInt 5)])]"
  note t = Dashboard_get_strips_volatile_keys
      [where grafana = "''p1''" and uid = "JStr ''d1''" and providers = example_providers
         and w = example_world, THEN conjunct2, THEN conjunct1, rule_format,
       of example_provider ?dashboard "remote example_world" ?body "JObj [(''folderId'', JInt 5)]"
          "JInt 5" example_folder "remote example_world" "JStr ''Team A''" "JStr ''f1''"]
  have h: "example_providers ''p1'' = Some example_provider
       \<and> example_provider (get_dashboard (JStr ''d1'')) (remote example_world)
            = (Inr ?dashboard, remote example_world)
       \<and> getitem ?dashboard ''dashboard'' = Inr (JObj ?body)
       \<and> getitem ?dashboard ''meta'' = Inr (JObj [(''folderId'', JInt 5)])
       \<and> getitem (JObj [(''folderId'', JInt 5)]) ''folderId'' = Inr (JInt 5)
       \<and> example_provider (get_folder_by_id (JInt 5)) (remote example_world)
            = (Inr example_folder, remote example_world)
       \<and> getitem example_folder ''title'' = Inr (JStr ''Team A'')
       \<and> getitem example_folder ''uid'' = Inr (JStr ''f1'')"
    by (simp add: example_providers_def example_world_def example_folder_def)
  from t [OF h] show ?thesis
    by (simp add: example_world_def)
qed

end
